theory Spec2Isabelle
  imports Complex_Main "HOL-Library.Word" "HOL-Library.Signed_Division"
begin

section \<open>The hello-aaudio engine: data model\<close>

text \<open>
  The development embeds \<^verbatim>\<open>aaudio/hello-aaudio/src/main/cpp/audio_main.cpp\<close>:
  the buffer tuner \<^verbatim>\<open>TunePlayerForLowLatency\<close>, the render thread
  \<^verbatim>\<open>PlayAudioThreadProc\<close> and the controller entry points \<^verbatim>\<open>start\<close>,
  \<^verbatim>\<open>stop\<close> and \<^verbatim>\<open>deleteEngine\<close>. \<^verbatim>\<open>createEngine\<close> is left out: it is made of
  calls to the stream builder, which is not among the sources.

  C++ integers are words of their width. Comparisons of \<^verbatim>\<open>int32_t\<close> values are the
  signed ones (\<open><=s\<close>, \<open><s\<close>); additions wrap around, as two's complement hardware
  does where the C++ standard leaves signed overflow undefined.
\<close>

type_synonym int16_t = "16 word"
type_synonym uint8_t = "8 word"
type_synonym uint16_t = "16 word"
type_synonym int32_t = "32 word"
type_synonym uint32_t = "32 word"
type_synonym int64_t = "64 word"

text \<open>
  Constants of the NDK header \<^verbatim>\<open>aaudio/AAudio.h\<close>: \<^verbatim>\<open>AAUDIO_OK\<close> is 0 and
  \<^verbatim>\<open>AAUDIO_STREAM_STATE_STARTED\<close> is the fifth member of the stream-state enumeration.
\<close>

definition AAUDIO_OK :: int32_t where
  "AAUDIO_OK = 0"

definition AAUDIO_STREAM_STATE_STARTED :: int32_t where
  "AAUDIO_STREAM_STATE_STARTED = 4"

text \<open>The memory handed to a write: the tuner's \<^verbatim>\<open>uint8_t\<close> probe array or the render
  thread's \<^verbatim>\<open>int16_t\<close> array, with its contents.\<close>

datatype buffer = ByteBuf "uint8_t list" | SampleBuf "int16_t list"

text \<open>The calls of the AAudio stream API that the file makes, with their arguments
  (the stream handle apart).\<close>

datatype call =
    AAudioStream_getState
  | AAudioStream_getFramesPerBurst
  | AAudioStream_getSamplesPerFrame
  | AAudioStream_getBufferSizeInFrames
  | AAudioStream_getBufferCapacityInFrames
  | AAudioStream_getXRunCount
  | AAudioStream_setBufferSizeInFrames int32_t
  | AAudioStream_write buffer int32_t int64_t
  | AAudioStream_requestStop
  | AAudioStream_close

text \<open>
  The stream is an external collaborator. It is a transition function over a device state of
  any type: every call, a getter too, answers with a 32-bit value and a successor state, so
  that the device may answer each call in any way whatever, depending on everything that was
  asked of it before.
\<close>

type_synonym 'd stream = "'d \<Rightarrow> call \<Rightarrow> int32_t \<times> 'd"

text \<open>What the program does to the outside, in order: API calls with the value each
  returned, array allocations (\<^verbatim>\<open>new[]\<close>, with the number of elements) and
  releases (\<^verbatim>\<open>delete[]\<close>).\<close>

datatype event =
    Call call int32_t
  | New_uint8 nat
  | New_int16 nat
  | Delete_array

type_synonym 'd world = "'d \<times> event list"

definition api :: "'d stream \<Rightarrow> call \<Rightarrow> 'd world \<Rightarrow> int32_t \<times> 'd world" where
  "api S c w = (case S (fst w) c of (r, d') \<Rightarrow> (r, (d', snd w @ [Call c r])))"

definition emit :: "event \<Rightarrow> 'd world \<Rightarrow> 'd world" where
  "emit e w = (fst w, snd w @ [e])"

text \<open>\<^verbatim>\<open>struct AAudioEngine\<close>; the fields are written without the trailing underscore of
  the source. The stream pointer is \<open>None\<close> when null.\<close>

record AAudioEngine =
  sampleRate :: uint32_t
  sampleChannels :: uint16_t
  bitsPerSample :: uint16_t
  sampleFormat :: int32_t
  playStream :: "nat option"
  requestStop :: bool
  playAudio :: bool

text \<open>
  How a function ends: it returns a value, or \<^verbatim>\<open>assert\<close> fails and calls
  \<^verbatim>\<open>abort()\<close>, or \<^verbatim>\<open>new[]\<close> throws on a negative length and the exception,
  caught nowhere, terminates the process, or a write of the generator falls outside the
  render array.
\<close>

datatype 'a outcome = Return 'a | AssertFail | BadAlloc | OutOfBounds

section \<open>The buffer tuner\<close>

text \<open>
  \<^verbatim>\<open>bufCap * engine.bitsPerSample_ / 8\<close>: the product is an \<^verbatim>\<open>int\<close> (the
  \<^verbatim>\<open>uint16_t\<close> is promoted), wrapped to 32 bits, and the division truncates.
\<close>

definition probe_bytes :: "int32_t \<Rightarrow> uint16_t \<Rightarrow> int" where
  "probe_bytes bufCap bps = signed_take_bit 31 (sint bufCap * uint bps) sdiv 8"

text \<open>One pass through the body of the \<^verbatim>\<open>while\<close> loop (lines 233 to 262): it
  either breaks, with \<^verbatim>\<open>trainingError\<close>, or ends with new values of
  \<^verbatim>\<open>bufSize\<close>, \<^verbatim>\<open>prevBufSize\<close> and \<^verbatim>\<open>prevXRun\<close>. \<open>ndebug\<close> says whether
  the file is compiled with \<^verbatim>\<open>NDEBUG\<close>, which turns \<^verbatim>\<open>assert\<close> into nothing.\<close>

datatype 'd tune_step =
    Continue int32_t int32_t int32_t "'d world"
  | Break "bool outcome" "'d world"

definition tune_body ::
  "bool \<Rightarrow> 'd stream \<Rightarrow> int32_t \<Rightarrow> int32_t \<Rightarrow> buffer \<Rightarrow>
   int32_t \<Rightarrow> int32_t \<Rightarrow> int32_t \<Rightarrow> 'd world \<Rightarrow> 'd tune_step" where
  "tune_body ndebug S framesPerBurst bufCap buf bufSize prevBufSize prevXRun w =
    (case api S (AAudioStream_setBufferSizeInFrames bufSize) w of (result, w1) \<Rightarrow>
     if result <=s AAUDIO_OK then Break (Return True) w1
     else
      (case api S AAudioStream_getBufferSizeInFrames w1 of (bufSize', w2) \<Rightarrow>
       if bufSize' = prevBufSize then Break (Return False) w2
       else
        (case api S (AAudioStream_write buf bufCap 1000000000) w2 of (result', w3) \<Rightarrow>
         if result' <s 0 then
           (if ndebug then Break (Return True) w3 else Break AssertFail w3)
         else
          (case api S AAudioStream_getXRunCount w3 of (curXRun, w4) \<Rightarrow>
           if curXRun <=s prevXRun then Break (Return False) w4
           else Continue (bufSize' + framesPerBurst) bufSize' curXRun w4))))"

text \<open>The loop. Nothing in its guard says that it ends, so it is a partial function: a run
  that never leaves the loop is \<open>None\<close>.\<close>

partial_function (option) tune_loop ::
  "bool \<Rightarrow> 'd stream \<Rightarrow> int32_t \<Rightarrow> int32_t \<Rightarrow> buffer \<Rightarrow>
   int32_t \<Rightarrow> int32_t \<Rightarrow> int32_t \<Rightarrow> 'd world \<Rightarrow> (bool outcome \<times> 'd world) option" where
  "tune_loop ndebug S framesPerBurst bufCap buf bufSize prevBufSize prevXRun w =
    (if bufSize <=s bufCap then
       (case tune_body ndebug S framesPerBurst bufCap buf bufSize prevBufSize prevXRun w of
          Break out w' \<Rightarrow> Some (out, w')
        | Continue bufSize' prevBufSize' prevXRun' w' \<Rightarrow>
            tune_loop ndebug S framesPerBurst bufCap buf bufSize' prevBufSize' prevXRun' w')
     else Some (Return False, w))"

declare tune_loop.simps [code]

text \<open>Lines 265 to 272: the probe array is released; after a training error the size read
  at entry is requested again (the answer is not looked at) and the result is false.\<close>

definition tune_finish ::
  "'d stream \<Rightarrow> int32_t \<Rightarrow> bool outcome \<times> 'd world \<Rightarrow> bool outcome \<times> 'd world" where
  "tune_finish S orgSize r =
    (case r of
       (Return trainingError, w) \<Rightarrow>
         (let w1 = emit Delete_array w in
          if trainingError then
            (case api S (AAudioStream_setBufferSizeInFrames orgSize) w1 of
               (_, w2) \<Rightarrow> (Return False, w2))
          else (Return True, w1))
     | (out, w) \<Rightarrow> (out, w))"

text \<open>Lines 219 to 229, the values read before the loop: \<^verbatim>\<open>framesPerBurst\<close>,
  \<^verbatim>\<open>orgSize\<close>, \<^verbatim>\<open>bufCap\<close>, then the zeroed probe array, then
  \<^verbatim>\<open>prevXRun\<close>. \<^verbatim>\<open>assert(buf)\<close> cannot fail: \<^verbatim>\<open>new[]\<close> throws instead of
  returning null.\<close>

record 'd tune_entry =
  te_framesPerBurst :: int32_t
  te_orgSize :: int32_t
  te_bufCap :: int32_t
  te_buf :: buffer
  te_prevXRun :: int32_t
  te_world :: "'d world"

definition tune_setup :: "AAudioEngine \<Rightarrow> 'd stream \<Rightarrow> 'd world \<Rightarrow> 'd tune_entry outcome \<times> 'd world" where
  "tune_setup engine S w0 =
    (case api S AAudioStream_getFramesPerBurst w0 of (framesPerBurst, w1) \<Rightarrow>
     case api S AAudioStream_getBufferSizeInFrames w1 of (orgSize, w2) \<Rightarrow>
     case api S AAudioStream_getBufferCapacityInFrames w2 of (bufCap, w3) \<Rightarrow>
     let n = probe_bytes bufCap (bitsPerSample engine) in
     if n < 0 then (BadAlloc, w3)
     else
      (let buf = ByteBuf (replicate (nat n) 0);
           w4 = emit (New_uint8 (nat n)) w3 in
       case api S AAudioStream_getXRunCount w4 of (prevXRun, w5) \<Rightarrow>
         (Return \<lparr>te_framesPerBurst = framesPerBurst, te_orgSize = orgSize,
                  te_bufCap = bufCap, te_buf = buf, te_prevXRun = prevXRun,
                  te_world = w5\<rparr>, w5)))"

text \<open>\<^verbatim>\<open>TunePlayerForLowLatency\<close>. The candidate \<^verbatim>\<open>bufSize\<close> starts at
  \<^verbatim>\<open>framesPerBurst\<close> and \<^verbatim>\<open>prevBufSize\<close> at 0.\<close>

definition TunePlayerForLowLatency ::
  "bool \<Rightarrow> AAudioEngine \<Rightarrow> 'd stream \<Rightarrow> 'd world \<Rightarrow> (bool outcome \<times> 'd world) option" where
  "TunePlayerForLowLatency ndebug engine S w =
    (case api S AAudioStream_getState w of (state, w0) \<Rightarrow>
     if state \<noteq> AAUDIO_STREAM_STATE_STARTED then Some (Return False, w0)
     else
      (case tune_setup engine S w0 of
         (Return e, _) \<Rightarrow>
           map_option (tune_finish S (te_orgSize e))
             (tune_loop ndebug S (te_framesPerBurst e) (te_bufCap e) (te_buf e)
                (te_framesPerBurst e) 0 (te_prevXRun e) (te_world e))
       | (AssertFail, w') \<Rightarrow> Some (AssertFail, w')
       | (BadAlloc, w') \<Rightarrow> Some (BadAlloc, w')
       | (OutOfBounds, w') \<Rightarrow> Some (OutOfBounds, w')))"

subsection \<open>Reading a trace\<close>

text \<open>The two tuning errors of the loop, as they show in the trace: a
  \<^verbatim>\<open>setBufferSizeInFrames\<close> answered by a value that is not positive, and a
  \<^verbatim>\<open>write\<close> answered by a negative value.\<close>

definition set_rejected :: "event \<Rightarrow> bool" where
  "set_rejected ev =
    (case ev of Call (AAudioStream_setBufferSizeInFrames n) r \<Rightarrow> r <=s AAUDIO_OK | _ \<Rightarrow> False)"

definition write_failed :: "event \<Rightarrow> bool" where
  "write_failed ev = (case ev of Call (AAudioStream_write b n t) r \<Rightarrow> r <s 0 | _ \<Rightarrow> False)"

definition is_write :: "event \<Rightarrow> bool" where
  "is_write ev = (case ev of Call (AAudioStream_write b n t) r \<Rightarrow> True | _ \<Rightarrow> False)"

text \<open>The sizes the program asked the device to adopt, in order.\<close>

fun requested_sizes :: "event list \<Rightarrow> int32_t list" where
  "requested_sizes [] = []"
| "requested_sizes (ev # evs) =
    (case ev of Call (AAudioStream_setBufferSizeInFrames n) r \<Rightarrow> n # requested_sizes evs
     | _ \<Rightarrow> requested_sizes evs)"

text \<open>
  The bytes of an array, and the bytes that a write of \<open>frames\<close> frames reads from the array
  it is given: a frame of the stream has \<open>samplesPerFrame\<close> samples of \<open>bitsPerSample\<close>
  bits (the meaning of a frame in the AAudio API).
\<close>

fun buffer_bytes :: "buffer \<Rightarrow> nat" where
  "buffer_bytes (ByteBuf bs) = length bs"
| "buffer_bytes (SampleBuf xs) = 2 * length xs"

definition frames_bytes :: "int32_t \<Rightarrow> int32_t \<Rightarrow> uint16_t \<Rightarrow> int" where
  "frames_bytes frames samplesPerFrame bps = sint frames * sint samplesPerFrame * uint bps div 8"

text \<open>The results of the writes, in order, and the writes that returned a value that is
  not positive.\<close>

fun write_results :: "event list \<Rightarrow> int32_t list" where
  "write_results [] = []"
| "write_results (ev # evs) =
    (case ev of Call (AAudioStream_write b n t) r \<Rightarrow> r # write_results evs
     | _ \<Rightarrow> write_results evs)"

definition write_rejected :: "event \<Rightarrow> bool" where
  "write_rejected ev = (case ev of Call (AAudioStream_write b n t) r \<Rightarrow> \<not> 0 <s r | _ \<Rightarrow> False)"

section \<open>The controller\<close>

text \<open>The entry points \<^verbatim>\<open>start\<close>, \<^verbatim>\<open>stop\<close> and \<^verbatim>\<open>deleteEngine\<close> (lines 163 to
  199), on the engine structure they share with the render thread.\<close>

definition start :: "AAudioEngine \<Rightarrow> bool \<times> AAudioEngine" where
  "start engine =
    (if playStream engine = None then (False, engine)
     else (True, engine\<lparr>playAudio := True\<rparr>))"

definition stop :: "AAudioEngine \<Rightarrow> bool \<times> AAudioEngine" where
  "stop engine =
    (if playStream engine = None then (True, engine)
     else (True, engine\<lparr>playAudio := False\<rparr>))"

definition deleteEngine :: "AAudioEngine \<Rightarrow> AAudioEngine" where
  "deleteEngine engine =
    (if playStream engine = None then engine else engine\<lparr>requestStop := True\<rparr>)"

datatype command = Start | Stop | DeleteEngine

fun controller :: "command \<Rightarrow> AAudioEngine \<Rightarrow> AAudioEngine" where
  "controller Start engine = snd (start engine)"
| "controller Stop engine = snd (stop engine)"
| "controller DeleteEngine engine = deleteEngine engine"

definition controls :: "command list \<Rightarrow> AAudioEngine \<Rightarrow> AAudioEngine" where
  "controls cs engine = fold controller cs engine"

section \<open>The render thread\<close>

text \<open>
  \<^verbatim>\<open>SineGenerator.h\<close> is not among the sources. The generator is a parameter: a state of
  any type, made by \<^verbatim>\<open>setup(frequency, sampleRate, amplitude)\<close>, and a function that
  gives the next sample, already quantized to 16 bits, and the state with the phase advanced.
\<close>

record 'g SineGenerator =
  osc_setup :: "real \<Rightarrow> uint32_t \<Rightarrow> real \<Rightarrow> 'g"
  osc_sample :: "'g \<Rightarrow> int16_t \<times> 'g"

text \<open>
  Modelled from the spec: \<^verbatim>\<open>SineGenerator::render\<close> is not among the sources. By the
  spec, \<^verbatim>\<open>render(buffer, frameStride, frameCount)\<close> writes \<open>frameCount\<close> samples into
  the buffer, advancing by \<open>frameStride\<close> elements between samples, and the phase accumulates
  across calls. The buffer argument is an array with the index at which the first sample
  goes; a sample that would fall outside the array is \<open>None\<close>.
\<close>

fun render ::
  "('g \<Rightarrow> int16_t \<times> 'g) \<Rightarrow> int16_t list \<Rightarrow> int \<Rightarrow> int \<Rightarrow> nat \<Rightarrow> 'g \<Rightarrow> (int16_t list \<times> 'g) option" where
  "render smp buffer i frameStride 0 g = Some (buffer, g)"
| "render smp buffer i frameStride (Suc n) g =
    (if 0 \<le> i \<and> i < int (length buffer) then
       (case smp g of (s, g') \<Rightarrow> render smp (buffer[nat i := s]) (i + frameStride) frameStride n g')
     else None)"


fun gen_state :: "('g \<Rightarrow> int16_t \<times> 'g) \<Rightarrow> 'g \<Rightarrow> nat \<Rightarrow> 'g" where
  "gen_state smp g 0 = g"
| "gen_state smp g (Suc n) = gen_state smp (snd (smp g)) n"

text \<open>What the thread holds while it loops: the shared engine structure, the device with
  the trace, the two oscillators and the render array.\<close>

record ('d, 'g) thread =
  t_engine :: AAudioEngine
  t_world :: "'d world"
  sineOscLeft :: 'g
  sineOscRight :: 'g
  t_buf :: "int16_t list"

datatype phase = RUNNING | STOPPING | CLOSED

text \<open>
  Line 99: the byte count \<^verbatim>\<open>sizeof(int16_t) * framesPerBurst * samplesPerFrame\<close> is
  computed in \<^verbatim>\<open>size_t\<close>: the two \<^verbatim>\<open>int32_t\<close> values are converted (sign-extended)
  and the product is taken modulo the word size, 64 bits on the LP64 targets (arm64-v8a,
  x86_64). \<^verbatim>\<open>memset\<close> zeroes that many bytes from the start of the array; a count
  beyond the bytes of the array is a write outside it, \<open>None\<close>. (The count is even, so
  whole samples are zeroed. It is the byte size of the array exactly when the product of
  line 88 did not wrap.)
\<close>

definition memset_bytes :: "int32_t \<Rightarrow> int32_t \<Rightarrow> nat" where
  "memset_bytes framesPerBurst samplesPerFrame =
    nat ((2 * sint framesPerBurst * sint samplesPerFrame) mod 2 ^ 64)"

definition memset_zero :: "int16_t list \<Rightarrow> nat \<Rightarrow> int16_t list option" where
  "memset_zero buf bytes =
    (if 2 * length buf < bytes then None
     else Some (replicate (bytes div 2) 0 @ drop (bytes div 2) buf))"

text \<open>
  Lines 93 to 105, the body of the loop after its guard.
  \<^verbatim>\<open>assert(result > 0)\<close> aborts unless the file is compiled with \<^verbatim>\<open>NDEBUG\<close>.
\<close>

definition render_body ::
  "bool \<Rightarrow> 'd stream \<Rightarrow> ('g \<Rightarrow> int16_t \<times> 'g) \<Rightarrow> int32_t \<Rightarrow> int32_t \<Rightarrow>
   ('d, 'g) thread \<Rightarrow> phase outcome \<times> ('d, 'g) thread" where
  "render_body ndebug S smp framesPerBurst samplesPerFrame st =
    (case
       (if playAudio (t_engine st) then
          (case render smp (t_buf st) 0 (sint samplesPerFrame) (nat (sint framesPerBurst))
                  (sineOscRight st) of
             None \<Rightarrow> None
           | Some (b1, right') \<Rightarrow>
               if samplesPerFrame = 2 then
                 (case render smp b1 1 (sint samplesPerFrame) (nat (sint framesPerBurst))
                         (sineOscLeft st) of
                    None \<Rightarrow> None
                  | Some (b2, left') \<Rightarrow>
                      Some (st\<lparr>t_buf := b2, sineOscRight := right', sineOscLeft := left'\<rparr>))
               else Some (st\<lparr>t_buf := b1, sineOscRight := right'\<rparr>))
        else
          (case memset_zero (t_buf st) (memset_bytes framesPerBurst samplesPerFrame) of
             None \<Rightarrow> None
           | Some b \<Rightarrow> Some (st\<lparr>t_buf := b\<rparr>))) of
       None \<Rightarrow> (OutOfBounds, st)
     | Some st1 \<Rightarrow>
         (case api S (AAudioStream_write (SampleBuf (t_buf st1)) framesPerBurst 100000000)
                 (t_world st1) of
            (result, w') \<Rightarrow>
              if \<not> ndebug \<and> \<not> 0 <s result then (AssertFail, st1\<lparr>t_world := w'\<rparr>)
              else (Return RUNNING, st1\<lparr>t_world := w'\<rparr>)))"

text \<open>
  The loop of lines 92 to 106. The two flags are shared with the controller, which runs
  beside the thread. A schedule says, for each pass, which controller calls are done before
  the guard reads \<^verbatim>\<open>requestStop_\<close> and which between that read and the read of
  \<^verbatim>\<open>playAudio_\<close> (a call made later in the pass acts as one made before the next guard).
  The loop has no bound of its own: when the schedule is used up, the thread is still in it,
  and the result is \<open>Return RUNNING\<close>. When the guard reads a set flag the loop is left, and
  what is left of the schedule is not looked at: the controller calls that run beside the
  lines after the loop are an argument of the teardown.
\<close>

fun render_loop ::
  "bool \<Rightarrow> 'd stream \<Rightarrow> ('g \<Rightarrow> int16_t \<times> 'g) \<Rightarrow> int32_t \<Rightarrow> int32_t \<Rightarrow>
   (command list \<times> command list) list \<Rightarrow> ('d, 'g) thread \<Rightarrow> phase outcome \<times> ('d, 'g) thread" where
  "render_loop ndebug S smp framesPerBurst samplesPerFrame [] st = (Return RUNNING, st)"
| "render_loop ndebug S smp framesPerBurst samplesPerFrame ((before_guard, before_body) # sched) st =
    (let st1 = st\<lparr>t_engine := controls before_guard (t_engine st)\<rparr> in
     if requestStop (t_engine st1) then (Return STOPPING, st1)
     else
      (case render_body ndebug S smp framesPerBurst samplesPerFrame
              (st1\<lparr>t_engine := controls before_body (t_engine st1)\<rparr>) of
         (Return ph, st2) \<Rightarrow> render_loop ndebug S smp framesPerBurst samplesPerFrame sched st2
       | (out, st2) \<Rightarrow> (out, st2)))"

text \<open>
  Lines 108 to 114: the array is released, \<^verbatim>\<open>requestStop_\<close> is reset, the stream is
  asked to stop and is closed, and the pointer to it is set to null. The controller runs
  beside these lines too. \<open>closing\<close> gives its calls that land after the guard has read the
  flag and before line 109 resets it, and those that land between line 109 and line 114 (the
  two stream calls in between do not touch the engine structure, so where exactly they land
  between the two assignments makes no difference). A call after line 114 finds the pointer
  null and does nothing.
\<close>

definition teardown ::
  "'d stream \<Rightarrow> command list \<times> command list \<Rightarrow> ('d, 'g) thread \<Rightarrow> ('d, 'g) thread" where
  "teardown S closing st =
    (let w1 = emit Delete_array (t_world st);
         e1 = (controls (fst closing) (t_engine st))\<lparr>requestStop := False\<rparr> in
     case api S AAudioStream_requestStop w1 of (_, w2) \<Rightarrow>
     case api S AAudioStream_close w2 of (_, w3) \<Rightarrow>
       st\<lparr>t_engine := (controls (snd closing) e1)\<lparr>playStream := None\<rparr>, t_world := w3\<rparr>)"

definition render_and_teardown ::
  "bool \<Rightarrow> 'd stream \<Rightarrow> ('g \<Rightarrow> int16_t \<times> 'g) \<Rightarrow> int32_t \<Rightarrow> int32_t \<Rightarrow>
   (command list \<times> command list) list \<Rightarrow> command list \<times> command list \<Rightarrow>
   ('d, 'g) thread \<Rightarrow> phase outcome \<times> ('d, 'g) thread" where
  "render_and_teardown ndebug S smp framesPerBurst samplesPerFrame sched closing st =
    (case render_loop ndebug S smp framesPerBurst samplesPerFrame sched st of
       (Return STOPPING, st') \<Rightarrow> (Return CLOSED, teardown S closing st')
     | r \<Rightarrow> r)"

text \<open>
  \<^verbatim>\<open>PlayAudioThreadProc\<close>. Logging is left out, but for the call of
  \<^verbatim>\<open>AAudioStream_getState\<close> whose answer line 78 logs. \<^verbatim>\<open>PrintAudioStreamInfo\<close> is
  not among the sources and is a parameter: what its reads of the stream do to the device and
  the trace. \<open>junk\<close> gives the contents of the freshly allocated render array, which
  \<^verbatim>\<open>new[]\<close> does not initialise. The length of the array is the 32-bit product.
  \<open>sched\<close> and \<open>closing\<close> are what the controller does beside the loop and beside the
  teardown.
\<close>

definition lift_outcome :: "bool outcome \<Rightarrow> phase outcome" where
  "lift_outcome out =
    (case out of Return b \<Rightarrow> Return RUNNING | AssertFail \<Rightarrow> AssertFail
     | BadAlloc \<Rightarrow> BadAlloc | OutOfBounds \<Rightarrow> OutOfBounds)"

definition PlayAudioThreadProc ::
  "bool \<Rightarrow> ('d world \<Rightarrow> 'd world) \<Rightarrow> 'g SineGenerator \<Rightarrow> (nat \<Rightarrow> int16_t) \<Rightarrow> 'd stream \<Rightarrow>
   (command list \<times> command list) list \<Rightarrow> command list \<times> command list \<Rightarrow>
   AAudioEngine \<Rightarrow> 'd world \<Rightarrow> (phase outcome \<times> ('d, 'g) thread) option" where
  "PlayAudioThreadProc ndebug PrintAudioStreamInfo G junk S sched closing engine w =
    (let sineOscLeft0 = osc_setup G 440 (sampleRate engine) (1 / 4);
         sineOscRight0 = osc_setup G 660 (sampleRate engine) (1 / 4);
         st0 = \<lparr>t_engine = engine, t_world = w, sineOscLeft = sineOscLeft0,
                sineOscRight = sineOscRight0, t_buf = []\<rparr> in
     case TunePlayerForLowLatency ndebug engine S w of
       None \<Rightarrow> None
     | Some (Return status, w1) \<Rightarrow>
         (let w2 = PrintAudioStreamInfo w1 in
          case api S AAudioStream_getState w2 of (_, w3) \<Rightarrow>
          case api S AAudioStream_getFramesPerBurst w3 of (framesPerBurst, w4) \<Rightarrow>
          case api S AAudioStream_getSamplesPerFrame w4 of (samplesPerFrame, w5) \<Rightarrow>
          let n = sint (framesPerBurst * samplesPerFrame) in
          if n < 0 then Some (BadAlloc, st0\<lparr>t_world := w5\<rparr>)
          else
            Some (render_and_teardown ndebug S (osc_sample G) framesPerBurst samplesPerFrame sched
              closing (st0\<lparr>t_world := emit (New_int16 (nat n)) w5, t_buf := map junk [0..<nat n]\<rparr>)))
     | Some (out, w1) \<Rightarrow> Some (lift_outcome out, st0\<lparr>t_world := w1\<rparr>))"

section \<open>Concrete collaborators\<close>

text \<open>A device that answers from a script: each call takes the next value of the list,
  whatever the call is, and 0 when the list is used up.\<close>

definition scripted :: "int32_t list stream" where
  "scripted rs c = (case rs of [] \<Rightarrow> (0, []) | r # rs' \<Rightarrow> (r, rs'))"

text \<open>A generator whose state is a counter and whose samples count up from it; the
  oscillator set up at 440 starts at 100, the other at 200.\<close>

definition counting :: "nat SineGenerator" where
  "counting = \<lparr>osc_setup = (\<lambda>frequency rate amplitude. if frequency = 440 then 100 else 200),
                osc_sample = (\<lambda>g. (of_nat g, Suc g))\<rparr>"

text \<open>The engine as \<^verbatim>\<open>createEngine\<close> leaves it for a stereo 16-bit stream at 48 kHz, and
  the engine after \<^verbatim>\<open>memset(&engine, 0, sizeof(engine))\<close>.\<close>

definition engine0 :: AAudioEngine where
  "engine0 = \<lparr>sampleRate = 48000, sampleChannels = 2, bitsPerSample = 16, sampleFormat = 1,
     playStream = Some 1, requestStop = False, playAudio = False\<rparr>"

definition zeroed_engine :: AAudioEngine where
  "zeroed_engine = \<lparr>sampleRate = 0, sampleChannels = 0, bitsPerSample = 0, sampleFormat = 0,
     playStream = None, requestStop = False, playAudio = False\<rparr>"

text \<open>A render thread in its loop, on a stereo stream with bursts of two frames: the array
  holds what the last pass left.\<close>

definition thread0 :: "(int32_t list, nat) thread" where
  "thread0 = \<lparr>t_engine = engine0, t_world = ([2, 5, 6], []), sineOscLeft = 100,
     sineOscRight = 200, t_buf = [7, 7, 7, 7]\<rparr>"

section \<open>The tuner: termination\<close>

text \<open>A pass that does not break has read an underrun count greater than the last one, and
  the count is a 32-bit signed value: the distance of \<^verbatim>\<open>prevXRun\<close> to the greatest
  such value shrinks with every pass. This gives an induction rule for the loop.\<close>

lemma tune_body_xrun:
  "tune_body ndebug S fpb cap buf bs pbs px w = Continue bs' pbs' px' w' \<Longrightarrow> sint px < sint px'"
  by (auto simp: tune_body_def word_sle_eq split: prod.splits if_splits)

lemma tune_loop_exit:
  "\<not> bs <=s cap \<Longrightarrow> tune_loop ndebug S fpb cap buf bs pbs px w = Some (Return False, w)"
  by (subst tune_loop.simps) simp

lemma tune_loop_break:
  "bs <=s cap \<Longrightarrow> tune_body ndebug S fpb cap buf bs pbs px w = Break out w' \<Longrightarrow>
   tune_loop ndebug S fpb cap buf bs pbs px w = Some (out, w')"
  by (subst tune_loop.simps) simp

lemma tune_loop_continue:
  "bs <=s cap \<Longrightarrow> tune_body ndebug S fpb cap buf bs pbs px w = Continue bs' pbs' px' w' \<Longrightarrow>
   tune_loop ndebug S fpb cap buf bs pbs px w = tune_loop ndebug S fpb cap buf bs' pbs' px' w'"
  by (subst tune_loop.simps) simp

lemma tune_loop_induct:
  assumes step: "\<And>bs pbs px w.
      (\<And>bs' pbs' px' w'. bs <=s cap \<Longrightarrow>
          tune_body ndebug S fpb cap buf bs pbs px w = Continue bs' pbs' px' w' \<Longrightarrow>
          P bs' pbs' px' w') \<Longrightarrow> P bs pbs px w"
  shows "P bs pbs px w"
proof (induction "nat (2 ^ 31 - sint px)" arbitrary: bs pbs px w rule: less_induct)
  case (less px bs pbs w)
  have "P bs pbs px w"
  proof (rule step)
    fix bs' pbs' px' w'
    assume "bs <=s cap"
      and "tune_body ndebug S fpb cap buf bs pbs px w = Continue bs' pbs' px' w'"
    then have lt: "sint px < sint px'" by (simp add: tune_body_xrun)
    have "sint px' < 2 ^ 31" using sint_lt [of px'] by simp
    with lt have "nat (2 ^ 31 - sint px') < nat (2 ^ 31 - sint px)" by simp
    then show "P bs' pbs' px' w'" by (rule less)
  qed
  then show ?case .
qed

lemma tune_loop_total:
  "\<exists>r. tune_loop ndebug S fpb cap buf bs pbs px w = Some r"
proof (induction bs pbs px w rule: tune_loop_induct [where ndebug = ndebug and S = S and fpb = fpb and cap = cap and buf = buf])
  case (1 bs pbs px w)
  show ?case
  proof (cases "bs <=s cap")
    case False
    then show ?thesis by (simp add: tune_loop_exit)
  next
    case True
    show ?thesis
    proof (cases "tune_body ndebug S fpb cap buf bs pbs px w")
      case (Break out w')
      with True show ?thesis by (simp add: tune_loop_break)
    next
      case (Continue bs' pbs' px' w')
      with True 1 [OF True Continue] show ?thesis by (simp add: tune_loop_continue)
    qed
  qed
qed

section \<open>The tuner: one pass and the trace\<close>

text \<open>One pass, by what the device answers.\<close>

lemma tune_body_set_rejected:
  "S d (AAudioStream_setBufferSizeInFrames bs) = (r, d1) \<Longrightarrow> r <=s AAUDIO_OK \<Longrightarrow>
   tune_body ndebug S fpb cap buf bs pbs px (d, tr) =
     Break (Return True) (d1, tr @ [Call (AAudioStream_setBufferSizeInFrames bs) r])"
  by (simp add: tune_body_def api_def)

lemma tune_body_converged:
  "S d (AAudioStream_setBufferSizeInFrames bs) = (r, d1) \<Longrightarrow> \<not> r <=s AAUDIO_OK \<Longrightarrow>
   S d1 AAudioStream_getBufferSizeInFrames = (pbs, d2) \<Longrightarrow>
   tune_body ndebug S fpb cap buf bs pbs px (d, tr) =
     Break (Return False) (d2, tr @ [Call (AAudioStream_setBufferSizeInFrames bs) r,
        Call AAudioStream_getBufferSizeInFrames pbs])"
  by (simp add: tune_body_def api_def)

lemma tune_body_write_failed:
  "S d (AAudioStream_setBufferSizeInFrames bs) = (r, d1) \<Longrightarrow> \<not> r <=s AAUDIO_OK \<Longrightarrow>
   S d1 AAudioStream_getBufferSizeInFrames = (adopted, d2) \<Longrightarrow> adopted \<noteq> pbs \<Longrightarrow>
   S d2 (AAudioStream_write buf cap 1000000000) = (r', d3) \<Longrightarrow> r' <s 0 \<Longrightarrow>
   tune_body ndebug S fpb cap buf bs pbs px (d, tr) =
     Break (if ndebug then Return True else AssertFail)
       (d3, tr @ [Call (AAudioStream_setBufferSizeInFrames bs) r,
        Call AAudioStream_getBufferSizeInFrames adopted,
        Call (AAudioStream_write buf cap 1000000000) r'])"
  by (simp add: tune_body_def api_def)

lemma tune_body_checked:
  "S d (AAudioStream_setBufferSizeInFrames bs) = (r, d1) \<Longrightarrow> \<not> r <=s AAUDIO_OK \<Longrightarrow>
   S d1 AAudioStream_getBufferSizeInFrames = (adopted, d2) \<Longrightarrow> adopted \<noteq> pbs \<Longrightarrow>
   S d2 (AAudioStream_write buf cap 1000000000) = (r', d3) \<Longrightarrow> \<not> r' <s 0 \<Longrightarrow>
   S d3 AAudioStream_getXRunCount = (cur, d4) \<Longrightarrow>
   tune_body ndebug S fpb cap buf bs pbs px (d, tr) =
     (let tr' = tr @ [Call (AAudioStream_setBufferSizeInFrames bs) r,
        Call AAudioStream_getBufferSizeInFrames adopted,
        Call (AAudioStream_write buf cap 1000000000) r',
        Call AAudioStream_getXRunCount cur] in
      if cur <=s px then Break (Return False) (d4, tr')
      else Continue (adopted + fpb) adopted cur (d4, tr'))"
  by (simp add: tune_body_def api_def)

text \<open>What a pass adds to the trace.\<close>

lemma tune_body_Continue_trace:
  "tune_body ndebug S fpb cap buf bs pbs px (d, tr) = Continue bs' pbs' px' (d', tr') \<Longrightarrow>
   \<exists>new. tr' = tr @ new \<and> \<not> list_ex set_rejected new \<and> \<not> list_ex write_failed new \<and>
     (\<forall>ev\<in>set new. is_write ev \<longrightarrow> (\<exists>r. ev = Call (AAudioStream_write buf cap 1000000000) r))"
  by (auto simp: tune_body_def api_def set_rejected_def write_failed_def is_write_def
      split: prod.splits if_splits)

lemma tune_body_Break_trace:
  "tune_body ndebug S fpb cap buf bs pbs px (d, tr) = Break out (d', tr') \<Longrightarrow>
   \<exists>new. tr' = tr @ new \<and>
     (list_ex set_rejected new \<longrightarrow> out = Return True) \<and>
     (list_ex write_failed new \<longrightarrow> out = (if ndebug then Return True else AssertFail)) \<and>
     (out = Return False \<or> list_ex set_rejected new \<or> list_ex write_failed new) \<and>
     (\<forall>ev\<in>set new. is_write ev \<longrightarrow> (\<exists>r. ev = Call (AAudioStream_write buf cap 1000000000) r))"
  by (auto simp: tune_body_def api_def set_rejected_def write_failed_def is_write_def
      split: prod.splits if_splits)

lemma tune_loop_trace:
  "tune_loop ndebug S fpb cap buf bs pbs px w = Some (out, w') \<Longrightarrow>
   \<exists>new. snd w' = snd w @ new \<and>
     (list_ex set_rejected new \<longrightarrow> out = Return True) \<and>
     (list_ex write_failed new \<longrightarrow> out = (if ndebug then Return True else AssertFail)) \<and>
     (out = Return False \<or> list_ex set_rejected new \<or> list_ex write_failed new) \<and>
     (\<forall>ev\<in>set new. is_write ev \<longrightarrow> (\<exists>r. ev = Call (AAudioStream_write buf cap 1000000000) r))"
proof (induction bs pbs px w rule: tune_loop_induct [where ndebug = ndebug and S = S and fpb = fpb and cap = cap and buf = buf])
  case (1 bs pbs px w)
  show ?case
  proof (cases "bs <=s cap")
    case False
    with 1(2) show ?thesis by (simp add: tune_loop_exit)
  next
    case True
    show ?thesis
    proof (cases "tune_body ndebug S fpb cap buf bs pbs px w")
      case (Break out0 w0)
      with True 1(2) have eq: "out0 = out" "w0 = w'" by (simp_all add: tune_loop_break)
      from Break eq tune_body_Break_trace [of ndebug S fpb cap buf bs pbs px "fst w" "snd w" out "fst w'" "snd w'"]
      show ?thesis by simp
    next
      case (Continue bs' pbs' px' w1)
      with True 1(2) have run: "tune_loop ndebug S fpb cap buf bs' pbs' px' w1 = Some (out, w')"
        by (simp add: tune_loop_continue)
      from 1(1) [OF True Continue run] obtain new2 where n2: "snd w' = snd w1 @ new2"
        "list_ex set_rejected new2 \<longrightarrow> out = Return True"
        "list_ex write_failed new2 \<longrightarrow> out = (if ndebug then Return True else AssertFail)"
        "out = Return False \<or> list_ex set_rejected new2 \<or> list_ex write_failed new2"
        "\<forall>ev\<in>set new2. is_write ev \<longrightarrow> (\<exists>r. ev = Call (AAudioStream_write buf cap 1000000000) r)"
        by blast
      from Continue tune_body_Continue_trace [of ndebug S fpb cap buf bs pbs px "fst w" "snd w" bs' pbs' px' "fst w1" "snd w1"]
      obtain new1 where n1: "snd w1 = snd w @ new1" "\<not> list_ex set_rejected new1"
        "\<not> list_ex write_failed new1"
        "\<forall>ev\<in>set new1. is_write ev \<longrightarrow> (\<exists>r. ev = Call (AAudioStream_write buf cap 1000000000) r)"
        by auto
      show ?thesis
        apply (rule exI [of _ "new1 @ new2"])
        using n1 n2 by (auto simp: list_ex_iff)
    qed
  qed
qed


lemma tune_loop_converged:
  assumes "bs <=s cap"
    and "S d (AAudioStream_setBufferSizeInFrames bs) = (r, d1)"
    and "\<not> r <=s AAUDIO_OK"
    and "S d1 AAudioStream_getBufferSizeInFrames = (pbs, d2)"
  shows "tune_loop ndebug S fpb cap buf bs pbs px (d, tr) =
     Some (Return False, (d2, tr @ [Call (AAudioStream_setBufferSizeInFrames bs) r,
        Call AAudioStream_getBufferSizeInFrames pbs]))"
  using assms by (simp add: tune_loop_break tune_body_converged)

lemma tune_setup_Return:
  assumes "S d AAudioStream_getFramesPerBurst = (fpb, d1)"
    and "S d1 AAudioStream_getBufferSizeInFrames = (org, d2)"
    and "S d2 AAudioStream_getBufferCapacityInFrames = (cap, d3)"
    and "0 \<le> probe_bytes cap (bitsPerSample engine)"
    and "S d3 AAudioStream_getXRunCount = (px, d4)"
    and "tr' = tr @ [Call AAudioStream_getFramesPerBurst fpb,
          Call AAudioStream_getBufferSizeInFrames org,
          Call AAudioStream_getBufferCapacityInFrames cap,
          New_uint8 (nat (probe_bytes cap (bitsPerSample engine))),
          Call AAudioStream_getXRunCount px]"
  shows "tune_setup engine S (d, tr) =
     (Return \<lparr>te_framesPerBurst = fpb, te_orgSize = org, te_bufCap = cap,
        te_buf = ByteBuf (replicate (nat (probe_bytes cap (bitsPerSample engine))) 0),
        te_prevXRun = px, te_world = (d4, tr')\<rparr>, (d4, tr'))"
  using assms by (simp add: tune_setup_def api_def emit_def Let_def)

lemma tune_setup_world:
  "tune_setup engine S w0 = (Return e, w) \<Longrightarrow> te_world e = w"
  by (auto simp: tune_setup_def Let_def split: prod.splits if_splits)

lemma tune_setup_buf:
  "tune_setup engine S w0 = (Return e, w) \<Longrightarrow>
   0 \<le> probe_bytes (te_bufCap e) (bitsPerSample engine) \<and>
   te_buf e = ByteBuf (replicate (nat (probe_bytes (te_bufCap e) (bitsPerSample engine))) 0)"
  by (auto simp: tune_setup_def Let_def split: prod.splits if_splits)

lemma TunePlayerForLowLatency_started:
  assumes "S d AAudioStream_getState = (AAUDIO_STREAM_STATE_STARTED, d0)"
    and "tune_setup engine S (d0, tr @ [Call AAudioStream_getState AAUDIO_STREAM_STATE_STARTED]) = (Return e, w)"
  shows "TunePlayerForLowLatency ndebug engine S (d, tr) =
     map_option (tune_finish S (te_orgSize e))
       (tune_loop ndebug S (te_framesPerBurst e) (te_bufCap e) (te_buf e)
          (te_framesPerBurst e) 0 (te_prevXRun e) (te_world e))"
  using assms by (simp add: TunePlayerForLowLatency_def api_def)

section \<open>The tuner: the claims\<close>

text \<open>
  C4. For every stream, that is for every transition function \<open>S\<close> and every device state,
  whatever it answers to \<^verbatim>\<open>setBufferSizeInFrames\<close>, \<^verbatim>\<open>getBufferSizeInFrames\<close>,
  \<^verbatim>\<open>write\<close> and \<^verbatim>\<open>getXRunCount\<close>, the search loop with the guard
  \<^verbatim>\<open>bufSize <= bufCap\<close> ends after finitely many passes, from every state of its
  variables, and so does \<^verbatim>\<open>TunePlayerForLowLatency\<close>. (The loop is a partial function
  whose value is \<open>None\<close> on a run that never ends.)
\<close>

theorem tune_loop_terminates:
  "(\<exists>r. tune_loop ndebug S framesPerBurst bufCap buf bufSize prevBufSize prevXRun w = Some r) \<and>
   (\<exists>r. TunePlayerForLowLatency ndebug engine S w = Some r)"
proof
  show "\<exists>r. tune_loop ndebug S framesPerBurst bufCap buf bufSize prevBufSize prevXRun w = Some r"
    by (rule tune_loop_total)
  show "\<exists>r. TunePlayerForLowLatency ndebug engine S w = Some r"
  proof -
    obtain state w0 where g: "api S AAudioStream_getState w = (state, w0)"
      by (cases "api S AAudioStream_getState w") blast
    obtain out w1 where su: "tune_setup engine S w0 = (out, w1)"
      by (cases "tune_setup engine S w0") blast
    show ?thesis
    proof (cases out)
      case (Return e)
      obtain r where "tune_loop ndebug S (te_framesPerBurst e) (te_bufCap e) (te_buf e)
          (te_framesPerBurst e) 0 (te_prevXRun e) (te_world e) = Some r"
        using tune_loop_total by blast
      with g su Return show ?thesis
        by (simp add: TunePlayerForLowLatency_def del: split_paired_Ex)
    qed (use g su in \<open>simp_all add: TunePlayerForLowLatency_def del: split_paired_Ex\<close>)
  qed
qed

text \<open>
  C8. If the state of the stream is not \<^verbatim>\<open>AAUDIO_STREAM_STATE_STARTED\<close> when the tuner
  is called, the tuner returns false at once: the only call it makes is the
  \<^verbatim>\<open>getState\<close> itself, so no \<^verbatim>\<open>setBufferSizeInFrames\<close> and no \<^verbatim>\<open>write\<close>
  is issued.
\<close>

theorem tune_not_started:
  assumes "S d AAudioStream_getState = (state, d')"
    and "state \<noteq> AAUDIO_STREAM_STATE_STARTED"
  shows "TunePlayerForLowLatency ndebug engine S (d, tr) =
     Some (Return False, (d', tr @ [Call AAudioStream_getState state]))"
  using assms by (simp add: TunePlayerForLowLatency_def api_def)

theorem tune_not_started_witness:
  "TunePlayerForLowLatency True engine0 scripted ([2, 5, 6], []) =
     Some (Return False, ([5, 6], [Call AAudioStream_getState 2]))"
  using tune_not_started [of scripted "[2, 5, 6]" 2 "[5, 6]" True engine0 "[]"]
  by (simp add: scripted_def AAUDIO_STREAM_STATE_STARTED_def)

text \<open>A pass that reaches the underrun check, by what the device answers.\<close>

lemma sint_add_no_wrap:
  fixes a b :: int32_t
  assumes "- (2 ^ 31) \<le> sint a + sint b" and "sint a + sint b < 2 ^ 31"
  shows "sint (a + b) = sint a + sint b"
  using assms by (simp add: sint_word_ariths signed_take_bit_int_eq_self)

lemma tune_loop_checked:
  assumes "bs <=s cap"
    and "S d (AAudioStream_setBufferSizeInFrames bs) = (r, d1)"
    and "\<not> r <=s AAUDIO_OK"
    and "S d1 AAudioStream_getBufferSizeInFrames = (adopted, d2)"
    and "adopted \<noteq> pbs"
    and "S d2 (AAudioStream_write buf cap 1000000000) = (r', d3)"
    and "\<not> r' <s 0"
    and "S d3 AAudioStream_getXRunCount = (cur, d4)"
    and "tr' = tr @ [Call (AAudioStream_setBufferSizeInFrames bs) r,
        Call AAudioStream_getBufferSizeInFrames adopted,
        Call (AAudioStream_write buf cap 1000000000) r',
        Call AAudioStream_getXRunCount cur]"
  shows "tune_loop ndebug S fpb cap buf bs pbs px (d, tr) =
     (if cur <=s px then Some (Return False, (d4, tr'))
      else tune_loop ndebug S fpb cap buf (adopted + fpb) adopted cur (d4, tr'))"
proof (cases "cur <=s px")
  case True
  with assms(1,9) show ?thesis
    by (simp add: tune_loop_break [where out = "Return False" and w' = "(d4, tr')"]
        tune_body_checked [OF assms(2-8)])
next
  case False
  with assms(1,9) show ?thesis
    by (simp add: tune_loop_continue [where bs' = "adopted + fpb" and pbs' = adopted and px' = cur and w' = "(d4, tr')"]
        tune_body_checked [OF assms(2-8)])
qed

text \<open>
  C3, as amended. In every pass of the search loop that reaches the underrun check (the
  request was accepted, the size read back differs from \<^verbatim>\<open>prevBufSize\<close>, the probe
  write did not fail), the tuner reads the underrun counter and stops with success when it is
  not greater than the last reading; otherwise the search repeats with, as next candidate,
  the size read back from the device plus one burst (\<^verbatim>\<open>framesPerBurst\<close>, in 32-bit
  arithmetic), that size as \<^verbatim>\<open>prevBufSize\<close> and the new count as \<^verbatim>\<open>prevXRun\<close>.
  Where the device adopted exactly the candidate, \<^verbatim>\<open>framesPerBurst\<close> is positive and the
  sum does not overflow, the candidate grows by exactly one burst.
\<close>

theorem tune_underrun_check:
  assumes "bufSize <=s bufCap"
    and "S d (AAudioStream_setBufferSizeInFrames bufSize) = (result, d1)"
    and "\<not> result <=s AAUDIO_OK"
    and "S d1 AAudioStream_getBufferSizeInFrames = (adopted, d2)"
    and "adopted \<noteq> prevBufSize"
    and "S d2 (AAudioStream_write buf bufCap 1000000000) = (wresult, d3)"
    and "\<not> wresult <s 0"
    and "S d3 AAudioStream_getXRunCount = (curXRun, d4)"
    and "tr' = tr @ [Call (AAudioStream_setBufferSizeInFrames bufSize) result,
        Call AAudioStream_getBufferSizeInFrames adopted,
        Call (AAudioStream_write buf bufCap 1000000000) wresult,
        Call AAudioStream_getXRunCount curXRun]"
  shows "tune_loop ndebug S framesPerBurst bufCap buf bufSize prevBufSize prevXRun (d, tr) =
       (if curXRun <=s prevXRun then Some (Return False, (d4, tr'))
        else tune_loop ndebug S framesPerBurst bufCap buf (adopted + framesPerBurst) adopted
               curXRun (d4, tr')) \<and>
     (adopted = bufSize \<and> 0 < sint framesPerBurst \<and>
        sint bufSize + sint framesPerBurst < 2 ^ 31 \<longrightarrow>
      sint (adopted + framesPerBurst) = sint bufSize + sint framesPerBurst \<and>
      bufSize <s adopted + framesPerBurst)"
proof
  show "tune_loop ndebug S framesPerBurst bufCap buf bufSize prevBufSize prevXRun (d, tr) =
       (if curXRun <=s prevXRun then Some (Return False, (d4, tr'))
        else tune_loop ndebug S framesPerBurst bufCap buf (adopted + framesPerBurst) adopted
               curXRun (d4, tr'))"
    using assms by (rule tune_loop_checked)
  show "adopted = bufSize \<and> 0 < sint framesPerBurst \<and>
        sint bufSize + sint framesPerBurst < 2 ^ 31 \<longrightarrow>
      sint (adopted + framesPerBurst) = sint bufSize + sint framesPerBurst \<and>
      bufSize <s adopted + framesPerBurst"
  proof (intro impI, elim conjE)
    assume a: "adopted = bufSize" "0 < sint framesPerBurst"
      "sint bufSize + sint framesPerBurst < 2 ^ 31"
    have "- (2 ^ 31) \<le> sint bufSize" using sint_ge [of bufSize] by simp
    with a have "sint (bufSize + framesPerBurst) = sint bufSize + sint framesPerBurst"
      by (intro sint_add_no_wrap) simp_all
    with a show "sint (adopted + framesPerBurst) = sint bufSize + sint framesPerBurst \<and>
      bufSize <s adopted + framesPerBurst"
      by (simp add: word_sless_alt)
  qed
qed

theorem tune_underrun_check_witness:
  "tune_loop True scripted 2 20 (ByteBuf []) 4 2 0 ([4, 4, 20, 1, 6, 4], []) =
     Some (Return False, ([], [Call (AAudioStream_setBufferSizeInFrames 4) 4,
        Call AAudioStream_getBufferSizeInFrames 4,
        Call (AAudioStream_write (ByteBuf []) 20 1000000000) 20,
        Call AAudioStream_getXRunCount 1,
        Call (AAudioStream_setBufferSizeInFrames 6) 6,
        Call AAudioStream_getBufferSizeInFrames 4])) \<and>
   sint (4 + 2 :: int32_t) = 6 \<and> (4 :: int32_t) <s 4 + 2"
proof -
  have step2: "tune_loop True scripted 2 20 (ByteBuf []) 6 4 1
       ([6, 4], [Call (AAudioStream_setBufferSizeInFrames 4) 4,
        Call AAudioStream_getBufferSizeInFrames 4,
        Call (AAudioStream_write (ByteBuf []) 20 1000000000) 20,
        Call AAudioStream_getXRunCount 1]) =
     Some (Return False, ([], [Call (AAudioStream_setBufferSizeInFrames 4) 4,
        Call AAudioStream_getBufferSizeInFrames 4,
        Call (AAudioStream_write (ByteBuf []) 20 1000000000) 20,
        Call AAudioStream_getXRunCount 1,
        Call (AAudioStream_setBufferSizeInFrames 6) 6,
        Call AAudioStream_getBufferSizeInFrames 4]))"
    by code_simp
  show ?thesis
    using tune_underrun_check [of 4 20 scripted "[4, 4, 20, 1, 6, 4]" 4 "[4, 20, 1, 6, 4]"
        4 "[20, 1, 6, 4]" 2 "ByteBuf []" 20 "[1, 6, 4]" 1 "[6, 4]" _ "[]" True 2 0] step2
    by (simp add: scripted_def AAUDIO_OK_def word_sle_eq word_sless_alt)
qed

text \<open>
  C3 as stated fails: the candidate does not always grow by exactly one burst, and it can
  shrink. The device here has a burst of 2 frames and a capacity of 20; it reports an adopted
  size of 10 after the request for 2, and of 1 after the request for 12, with the underrun
  count rising each time. The sizes requested are 2, then 12 (not 2 + 2), then 3 (less than
  12).
\<close>

theorem tune_candidate_not_monotonic:
  "map_option (\<lambda>r. (fst r, requested_sizes (snd (snd r))))
     (TunePlayerForLowLatency True engine0 scripted
        ([4, 2, 8, 20, 0,  2, 10, 20, 1,  12, 1, 20, 2,  3, 1], [])) =
     Some (Return True, [2, 12, 3]) \<and>
   (12 :: int32_t) \<noteq> 2 + 2 \<and> (3 :: int32_t) <s 12"
  by code_simp


text \<open>A rejected request anywhere in what the loop adds to the trace, or a failed write
  when \<^verbatim>\<open>assert\<close> is compiled out, leaves the loop with \<^verbatim>\<open>trainingError\<close> set.\<close>

lemma tune_loop_error_outcome:
  assumes "tune_loop ndebug S fpb cap buf bs pbs px (d, tr) = Some (out, (d', tr @ new))"
    and "list_ex set_rejected new \<or> (ndebug \<and> list_ex write_failed new)"
  shows "out = Return True"
proof -
  from tune_loop_trace [OF assms(1)] obtain new' where n: "tr @ new = tr @ new'"
    "list_ex set_rejected new' \<longrightarrow> out = Return True"
    "list_ex write_failed new' \<longrightarrow> out = (if ndebug then Return True else AssertFail)"
    by auto
  from n(1) have "new' = new" by simp
  with n(2,3) assms(2) show ?thesis by auto
qed

text \<open>
  C2, as amended. For every run of the tuner in which the device rejects a
  \<^verbatim>\<open>setBufferSizeInFrames\<close> request of the loop with a result that is not positive, or
  in which a probe write returns a negative result and the file is compiled with
  \<^verbatim>\<open>NDEBUG\<close>, the tuner releases the probe array, requests the buffer size it read at
  entry again with \<^verbatim>\<open>setBufferSizeInFrames\<close> (whatever the device answers) and returns
  false. This covers the device that rejects every request.
\<close>

theorem tune_error_restores:
  assumes "S d AAudioStream_getState = (AAUDIO_STREAM_STATE_STARTED, d0)"
    and "tune_setup engine S (d0, tr @ [Call AAudioStream_getState AAUDIO_STREAM_STATE_STARTED]) =
       (Return e, w)"
    and "tune_loop ndebug S (te_framesPerBurst e) (te_bufCap e) (te_buf e)
          (te_framesPerBurst e) 0 (te_prevXRun e) w = Some (out, (d', snd w @ new))"
    and "list_ex set_rejected new \<or> (ndebug \<and> list_ex write_failed new)"
    and "S d' (AAudioStream_setBufferSizeInFrames (te_orgSize e)) = (r, d'')"
  shows "TunePlayerForLowLatency ndebug engine S (d, tr) =
     Some (Return False, (d'', snd w @ new @
        [Delete_array, Call (AAudioStream_setBufferSizeInFrames (te_orgSize e)) r]))"
proof -
  have w: "te_world e = w" using assms(2) by (rule tune_setup_world)
  have "tune_loop ndebug S (te_framesPerBurst e) (te_bufCap e) (te_buf e)
          (te_framesPerBurst e) 0 (te_prevXRun e) (fst w, snd w) = Some (out, (d', snd w @ new))"
    using assms(3) by simp
  then have "out = Return True" using assms(4) by (rule tune_loop_error_outcome)
  with assms(3,5) show ?thesis
    by (simp add: TunePlayerForLowLatency_started [OF assms(1,2)] w tune_finish_def emit_def api_def)
qed

theorem tune_error_restores_witness:
  "TunePlayerForLowLatency False engine0 scripted ([4, 2, 8, 4, 0, 0, 7], []) =
     Some (Return False, ([], [Call AAudioStream_getState 4, Call AAudioStream_getFramesPerBurst 2,
       Call AAudioStream_getBufferSizeInFrames 8, Call AAudioStream_getBufferCapacityInFrames 4,
       New_uint8 8, Call AAudioStream_getXRunCount 0,
       Call (AAudioStream_setBufferSizeInFrames 2) 0, Delete_array,
       Call (AAudioStream_setBufferSizeInFrames 8) 7]))"
proof -
  let ?tr = "[Call AAudioStream_getState 4, Call AAudioStream_getFramesPerBurst 2,
       Call AAudioStream_getBufferSizeInFrames 8, Call AAudioStream_getBufferCapacityInFrames 4,
       New_uint8 8, Call AAudioStream_getXRunCount 0]"
  let ?e = "\<lparr>te_framesPerBurst = 2, te_orgSize = 8, te_bufCap = 4,
       te_buf = ByteBuf [0, 0, 0, 0, 0, 0, 0, 0], te_prevXRun = 0, te_world = ([0, 7], ?tr)\<rparr>"
  have s: "tune_setup engine0 scripted ([2, 8, 4, 0, 0, 7], [] @ [Call AAudioStream_getState AAUDIO_STREAM_STATE_STARTED]) =
       (Return ?e, ([0, 7], ?tr))"
    by code_simp
  have l: "tune_loop False scripted (te_framesPerBurst ?e) (te_bufCap ?e) (te_buf ?e)
          (te_framesPerBurst ?e) 0 (te_prevXRun ?e) ([0, 7], ?tr) =
        Some (Return True, ([7], snd ([0 :: int32_t, 7], ?tr) @ [Call (AAudioStream_setBufferSizeInFrames 2) 0]))"
    by code_simp
  have g: "scripted [4, 2, 8, 4, 0, 0, 7] AAudioStream_getState = (AAUDIO_STREAM_STATE_STARTED, [2, 8, 4, 0, 0, 7])"
    by (simp add: scripted_def AAUDIO_STREAM_STATE_STARTED_def)
  have x: "list_ex set_rejected [Call (AAudioStream_setBufferSizeInFrames 2) 0] \<or>
      (False \<and> list_ex write_failed [Call (AAudioStream_setBufferSizeInFrames 2) 0])"
    by (simp add: set_rejected_def AAUDIO_OK_def)
  have r: "scripted [7] (AAudioStream_setBufferSizeInFrames (te_orgSize ?e)) = (7, [])"
    by (simp add: scripted_def)
  show ?thesis
    using tune_error_restores [OF g s l x r] by simp
qed

text \<open>
  C2 as stated fails where \<^verbatim>\<open>assert\<close> is active: the branch taken on a negative write
  result starts with \<^verbatim>\<open>assert(result >= 0)\<close>, which aborts before
  \<^verbatim>\<open>trainingError\<close> is set. The device here answers the probe write with -1: the run
  ends at the assertion, and the only size ever requested is the candidate 2, so the size 8
  read at entry is not restored. The lemma after it is the same run with \<^verbatim>\<open>NDEBUG\<close>.
\<close>

theorem tune_write_failure_asserts:
  "(case TunePlayerForLowLatency False engine0 scripted ([4, 2, 8, 4, 0, 2, 10, -1, 7], []) of
      None \<Rightarrow> False
    | Some (out, w) \<Rightarrow> out = AssertFail \<and> list_ex write_failed (snd w) \<and>
        requested_sizes (snd w) = [2] \<and> fst w = [7])"
  by code_simp

lemma tune_write_failure_ndebug:
  "map_option (\<lambda>r. (fst r, requested_sizes (snd (snd r))))
     (TunePlayerForLowLatency True engine0 scripted ([4, 2, 8, 4, 0, 2, 10, -1, 7], [])) =
   Some (Return False, [2, 8])"
  by code_simp


text \<open>The size of the probe array against the bytes of \<^verbatim>\<open>bufCap\<close> frames.\<close>

lemma sdiv_nonneg:
  fixes k :: int
  shows "0 \<le> k \<Longrightarrow> k sdiv 8 = k div 8"
  by (cases "k = 0") (simp_all add: signed_divide_int_def sgn_if)

lemma probe_bytes_no_wrap:
  assumes "0 \<le> sint cap" and "sint cap * uint bps < 2 ^ 31"
  shows "probe_bytes cap bps = sint cap * uint bps div 8"
proof -
  have nn: "0 \<le> sint cap * uint bps" using assms(1) by simp
  moreover have "- (2 ^ 31) \<le> (0 :: int)" by simp
  ultimately have "- (2 ^ 31) \<le> sint cap * uint bps" by (rule order_trans [rotated])
  with assms(2) have "signed_take_bit 31 (sint cap * uint bps) = sint cap * uint bps"
    by (simp add: signed_take_bit_int_eq_self)
  moreover have "(sint cap * uint bps) sdiv 8 = sint cap * uint bps div 8"
    using nn by (rule sdiv_nonneg)
  ultimately show ?thesis by (simp add: probe_bytes_def)
qed

lemma frames_exceed_probe:
  assumes "0 < sint cap" and "1 < sint spf" and "8 \<le> uint bps"
  shows "sint cap * uint bps div 8 < frames_bytes cap spf bps"
proof -
  let ?a = "sint cap * uint bps"
  have a8: "8 \<le> ?a"
  proof -
    have "1 * 8 \<le> sint cap * uint bps" using assms(1,3) by (intro mult_mono) simp_all
    then show ?thesis by simp
  qed
  have "2 * ?a \<le> sint cap * sint spf * uint bps"
  proof -
    have "sint cap * 2 \<le> sint cap * sint spf" using assms(1,2) by (intro mult_left_mono) simp_all
    then have "sint cap * 2 * uint bps \<le> sint cap * sint spf * uint bps"
      by (intro mult_right_mono) simp_all
    then show ?thesis by (simp add: mult.commute mult.left_commute)
  qed
  with a8 have "?a + 8 \<le> sint cap * sint spf * uint bps" by linarith
  then have "(?a + 8) div 8 \<le> sint cap * sint spf * uint bps div 8" by (rule zdiv_mono1) simp
  moreover have "(?a + 8) div 8 = ?a div 8 + 1" by simp
  ultimately show ?thesis by (simp add: frames_bytes_def)
qed

text \<open>
  C10. For a stream with more than one sample per frame (and, as for any open PCM stream, a
  positive capacity and samples of at least 8 bits, the byte size fitting an \<^verbatim>\<open>int\<close>),
  the probe array has \<^verbatim>\<open>bufCap * bitsPerSample / 8\<close> bytes, which is strictly less than
  the \<^verbatim>\<open>bufCap * samplesPerFrame * bitsPerSample / 8\<close> bytes of \<^verbatim>\<open>bufCap\<close> frames;
  and every write that the search loop issues passes that array with a frame count of
  \<^verbatim>\<open>bufCap\<close>, so each probe write tells the device to take more bytes than the array
  has.
\<close>

theorem probe_buffer_underallocated:
  assumes "tune_setup engine S w0 = (Return e, w)"
    and "1 < sint samplesPerFrame"
    and "0 < sint (te_bufCap e)"
    and "8 \<le> uint (bitsPerSample engine)"
    and "sint (te_bufCap e) * uint (bitsPerSample engine) < 2 ^ 31"
    and "tune_loop ndebug S (te_framesPerBurst e) (te_bufCap e) (te_buf e)
          (te_framesPerBurst e) 0 (te_prevXRun e) w = Some (out, w')"
  shows "int (buffer_bytes (te_buf e)) = sint (te_bufCap e) * uint (bitsPerSample engine) div 8 \<and>
     int (buffer_bytes (te_buf e)) <
       frames_bytes (te_bufCap e) samplesPerFrame (bitsPerSample engine) \<and>
     (\<exists>new. snd w' = snd w @ new \<and>
        (\<forall>ev\<in>set new. is_write ev \<longrightarrow>
           (\<exists>r. ev = Call (AAudioStream_write (te_buf e) (te_bufCap e) 1000000000) r)))"
proof -
  have pb: "probe_bytes (te_bufCap e) (bitsPerSample engine) =
      sint (te_bufCap e) * uint (bitsPerSample engine) div 8"
    using assms(3,5) by (intro probe_bytes_no_wrap) simp_all
  have nn: "0 \<le> sint (te_bufCap e) * uint (bitsPerSample engine) div 8"
    using assms(3) by (simp add: pos_imp_zdiv_nonneg_iff)
  have len: "int (buffer_bytes (te_buf e)) = sint (te_bufCap e) * uint (bitsPerSample engine) div 8"
    using tune_setup_buf [OF assms(1)] pb nn by simp
  have less: "sint (te_bufCap e) * uint (bitsPerSample engine) div 8 <
      frames_bytes (te_bufCap e) samplesPerFrame (bitsPerSample engine)"
    using assms(3,2,4) by (rule frames_exceed_probe)
  from tune_loop_trace [OF assms(6)] have tr: "\<exists>new. snd w' = snd w @ new \<and>
        (\<forall>ev\<in>set new. is_write ev \<longrightarrow>
           (\<exists>r. ev = Call (AAudioStream_write (te_buf e) (te_bufCap e) 1000000000) r))"
    by blast
  from len less tr show ?thesis by simp
qed

theorem probe_buffer_underallocated_witness:
  "int (buffer_bytes (ByteBuf [0, 0, 0, 0, 0, 0, 0, 0])) = 8 \<and>
   frames_bytes 4 2 16 = 16 \<and>
   TunePlayerForLowLatency True engine0 scripted ([4, 2, 8, 4, 0, 2, 2, 4, 0], []) =
     Some (Return True, ([], [Call AAudioStream_getState 4, Call AAudioStream_getFramesPerBurst 2,
       Call AAudioStream_getBufferSizeInFrames 8, Call AAudioStream_getBufferCapacityInFrames 4,
       New_uint8 8, Call AAudioStream_getXRunCount 0,
       Call (AAudioStream_setBufferSizeInFrames 2) 2, Call AAudioStream_getBufferSizeInFrames 2,
       Call (AAudioStream_write (ByteBuf [0, 0, 0, 0, 0, 0, 0, 0]) 4 1000000000) 4,
       Call AAudioStream_getXRunCount 0, Delete_array]))"
proof -
  let ?tr = "[Call AAudioStream_getState 4, Call AAudioStream_getFramesPerBurst 2,
       Call AAudioStream_getBufferSizeInFrames 8, Call AAudioStream_getBufferCapacityInFrames 4,
       New_uint8 8, Call AAudioStream_getXRunCount 0]"
  let ?e = "\<lparr>te_framesPerBurst = 2, te_orgSize = 8, te_bufCap = 4,
       te_buf = ByteBuf [0, 0, 0, 0, 0, 0, 0, 0], te_prevXRun = 0, te_world = ([2, 2, 4, 0], ?tr)\<rparr>"
  let ?w' = "([] :: int32_t list, ?tr @ [Call (AAudioStream_setBufferSizeInFrames 2) 2,
       Call AAudioStream_getBufferSizeInFrames 2,
       Call (AAudioStream_write (ByteBuf [0, 0, 0, 0, 0, 0, 0, 0]) 4 1000000000) 4,
       Call AAudioStream_getXRunCount 0])"
  have s: "tune_setup engine0 scripted ([2, 8, 4, 0, 2, 2, 4, 0], [Call AAudioStream_getState 4]) =
       (Return ?e, ([2, 2, 4, 0], ?tr))"
    by code_simp
  have l: "tune_loop True scripted (te_framesPerBurst ?e) (te_bufCap ?e) (te_buf ?e)
          (te_framesPerBurst ?e) 0 (te_prevXRun ?e) ([2, 2, 4, 0], ?tr) = Some (Return False, ?w')"
    by code_simp
  have h: "1 < sint (2 :: int32_t)" "0 < sint (te_bufCap ?e)" "8 \<le> uint (bitsPerSample engine0)"
    "sint (te_bufCap ?e) * uint (bitsPerSample engine0) < 2 ^ 31"
    by (simp_all add: engine0_def)
  have run: "TunePlayerForLowLatency True engine0 scripted ([4, 2, 8, 4, 0, 2, 2, 4, 0], []) =
     Some (Return True, (fst ?w', snd ?w' @ [Delete_array]))"
    by code_simp
  show ?thesis
    using probe_buffer_underallocated [OF s h l] run
    by (simp add: engine0_def frames_bytes_def)
qed

text \<open>The first events of a pass whose read-back differs from \<^verbatim>\<open>prevBufSize\<close>: the
  request, the read and the probe write, whatever follows.\<close>

lemma tune_finish_trace:
  "tune_finish S org (out, w) = (out', w') \<Longrightarrow> \<exists>rest. snd w' = snd w @ rest"
  by (cases out) (auto simp: tune_finish_def emit_def api_def Let_def split: prod.splits if_splits)

lemma tune_loop_first_events:
  assumes "bs <=s cap"
    and "S d (AAudioStream_setBufferSizeInFrames bs) = (r, d1)"
    and "\<not> r <=s AAUDIO_OK"
    and "S d1 AAudioStream_getBufferSizeInFrames = (adopted, d2)"
    and "adopted \<noteq> pbs"
    and "S d2 (AAudioStream_write buf cap 1000000000) = (r', d3)"
    and "tune_loop ndebug S fpb cap buf bs pbs px (d, tr) = Some (out, w')"
  shows "\<exists>rest. snd w' = tr @ [Call (AAudioStream_setBufferSizeInFrames bs) r,
        Call AAudioStream_getBufferSizeInFrames adopted,
        Call (AAudioStream_write buf cap 1000000000) r'] @ rest"
proof (cases "r' <s 0")
  case True
  have "tune_body ndebug S fpb cap buf bs pbs px (d, tr) =
      Break (if ndebug then Return True else AssertFail)
        (d3, tr @ [Call (AAudioStream_setBufferSizeInFrames bs) r,
          Call AAudioStream_getBufferSizeInFrames adopted,
          Call (AAudioStream_write buf cap 1000000000) r'])"
    using assms(2-6) True by (rule tune_body_write_failed)
  from tune_loop_break [OF assms(1) this] assms(7) show ?thesis by auto
next
  case False
  obtain cur d4 where x: "S d3 AAudioStream_getXRunCount = (cur, d4)"
    by (cases "S d3 AAudioStream_getXRunCount") blast
  let ?tr = "tr @ [Call (AAudioStream_setBufferSizeInFrames bs) r,
        Call AAudioStream_getBufferSizeInFrames adopted,
        Call (AAudioStream_write buf cap 1000000000) r',
        Call AAudioStream_getXRunCount cur]"
  note step = tune_loop_checked [OF assms(1-6) False x refl, of ndebug fpb px tr]
  show ?thesis
  proof (cases "cur <=s px")
    case True
    with step assms(7) have "w' = (d4, ?tr)" by simp
    then show ?thesis by simp
  next
    case False
    with step assms(7) have "tune_loop ndebug S fpb cap buf (adopted + fpb) adopted cur (d4, ?tr) =
        Some (out, w')" by simp
    from tune_loop_trace [OF this] obtain new where "snd w' = ?tr @ new" by auto
    then show ?thesis by simp
  qed
qed

text \<open>
  C1, as amended. In the search loop, after the device was asked to adopt the candidate size
  and accepted, the size read back is compared with the size adopted in the pass before
  (\<^verbatim>\<open>prevBufSize\<close>); when they are equal the loop stops and the tuner reports success,
  having made no probe write in that pass (third part of the statement, from any state of
  the loop). On the very first pass of \<^verbatim>\<open>TunePlayerForLowLatency\<close> the size of the pass
  before is the initial value 0 of \<^verbatim>\<open>prevBufSize\<close>: the tuner reports success without
  any probe write when the device reports an adopted size of 0 (first part), and when the
  device reports any other size, the size it had at entry included, the probe write is
  issued (second part).
\<close>

theorem tune_convergence_check:
  assumes "S d AAudioStream_getState = (AAUDIO_STREAM_STATE_STARTED, d0)"
    and "tune_setup engine S (d0, tr @ [Call AAudioStream_getState AAUDIO_STREAM_STATE_STARTED]) =
       (Return e, (d5, tr5))"
    and "te_framesPerBurst e <=s te_bufCap e"
    and "S d5 (AAudioStream_setBufferSizeInFrames (te_framesPerBurst e)) = (result, d6)"
    and "\<not> result <=s AAUDIO_OK"
    and "S d6 AAudioStream_getBufferSizeInFrames = (adopted, d7)"
    and "S d7 (AAudioStream_write (te_buf e) (te_bufCap e) 1000000000) = (wresult, d8)"
  shows "(adopted = 0 \<longrightarrow>
       TunePlayerForLowLatency ndebug engine S (d, tr) =
         Some (Return True, (d7, tr5 @
           [Call (AAudioStream_setBufferSizeInFrames (te_framesPerBurst e)) result,
            Call AAudioStream_getBufferSizeInFrames 0, Delete_array]))) \<and>
     (adopted \<noteq> 0 \<longrightarrow>
       (\<exists>out w' rest. TunePlayerForLowLatency ndebug engine S (d, tr) = Some (out, w') \<and>
          snd w' = tr5 @
           [Call (AAudioStream_setBufferSizeInFrames (te_framesPerBurst e)) result,
            Call AAudioStream_getBufferSizeInFrames adopted,
            Call (AAudioStream_write (te_buf e) (te_bufCap e) 1000000000) wresult] @ rest)) \<and>
     (\<forall>bufSize prevBufSize prevXRun dk trk r dk1 dk2.
        bufSize <=s te_bufCap e \<and>
        S dk (AAudioStream_setBufferSizeInFrames bufSize) = (r, dk1) \<and> \<not> r <=s AAUDIO_OK \<and>
        S dk1 AAudioStream_getBufferSizeInFrames = (prevBufSize, dk2) \<longrightarrow>
        map_option (tune_finish S (te_orgSize e))
          (tune_loop ndebug S (te_framesPerBurst e) (te_bufCap e) (te_buf e)
             bufSize prevBufSize prevXRun (dk, trk)) =
        Some (Return True, (dk2, trk @ [Call (AAudioStream_setBufferSizeInFrames bufSize) r,
           Call AAudioStream_getBufferSizeInFrames prevBufSize, Delete_array])))"
proof (intro conjI impI allI)
  have w: "te_world e = (d5, tr5)" using assms(2) by (rule tune_setup_world)
  note run = TunePlayerForLowLatency_started [OF assms(1,2), of ndebug, unfolded w]
  {
    assume "adopted = 0"
    with assms(3-6) show "TunePlayerForLowLatency ndebug engine S (d, tr) =
         Some (Return True, (d7, tr5 @
           [Call (AAudioStream_setBufferSizeInFrames (te_framesPerBurst e)) result,
            Call AAudioStream_getBufferSizeInFrames 0, Delete_array]))"
      by (simp add: run tune_loop_converged tune_finish_def emit_def)
  }
  {
    assume ne: "adopted \<noteq> 0"
    obtain out1 w1 where l: "tune_loop ndebug S (te_framesPerBurst e) (te_bufCap e) (te_buf e)
        (te_framesPerBurst e) 0 (te_prevXRun e) (d5, tr5) = Some (out1, w1)"
      using tune_loop_total [of ndebug S "te_framesPerBurst e" "te_bufCap e" "te_buf e"
          "te_framesPerBurst e" 0 "te_prevXRun e" "(d5, tr5)"] by auto
    from tune_loop_first_events [OF assms(3-6) ne assms(7) l] obtain rest1 where
      r1: "snd w1 = tr5 @
           [Call (AAudioStream_setBufferSizeInFrames (te_framesPerBurst e)) result,
            Call AAudioStream_getBufferSizeInFrames adopted,
            Call (AAudioStream_write (te_buf e) (te_bufCap e) 1000000000) wresult] @ rest1"
      by blast
    obtain out w' where f: "tune_finish S (te_orgSize e) (out1, w1) = (out, w')"
      by (cases "tune_finish S (te_orgSize e) (out1, w1)") blast
    from tune_finish_trace [OF f] obtain rest2 where r2: "snd w' = snd w1 @ rest2" by blast
    have "TunePlayerForLowLatency ndebug engine S (d, tr) = Some (out, w')"
      using l f by (simp add: run)
    moreover have "snd w' = tr5 @
           [Call (AAudioStream_setBufferSizeInFrames (te_framesPerBurst e)) result,
            Call AAudioStream_getBufferSizeInFrames adopted,
            Call (AAudioStream_write (te_buf e) (te_bufCap e) 1000000000) wresult] @
           (rest1 @ rest2)"
      using r1 r2 by simp
    ultimately show "\<exists>out w' rest. TunePlayerForLowLatency ndebug engine S (d, tr) = Some (out, w') \<and>
          snd w' = tr5 @
           [Call (AAudioStream_setBufferSizeInFrames (te_framesPerBurst e)) result,
            Call AAudioStream_getBufferSizeInFrames adopted,
            Call (AAudioStream_write (te_buf e) (te_bufCap e) 1000000000) wresult] @ rest"
      by blast
  }
  {
    fix bufSize prevBufSize prevXRun :: int32_t and dk trk r dk1 dk2
    assume "bufSize <=s te_bufCap e \<and>
        S dk (AAudioStream_setBufferSizeInFrames bufSize) = (r, dk1) \<and> \<not> r <=s AAUDIO_OK \<and>
        S dk1 AAudioStream_getBufferSizeInFrames = (prevBufSize, dk2)"
    then show "map_option (tune_finish S (te_orgSize e))
          (tune_loop ndebug S (te_framesPerBurst e) (te_bufCap e) (te_buf e)
             bufSize prevBufSize prevXRun (dk, trk)) =
        Some (Return True, (dk2, trk @ [Call (AAudioStream_setBufferSizeInFrames bufSize) r,
           Call AAudioStream_getBufferSizeInFrames prevBufSize, Delete_array]))"
      by (simp add: tune_loop_converged tune_finish_def emit_def)
  }
qed

text \<open>A run for C1: the device accepts the request for 2 frames and then reports a size
  of 0.\<close>

theorem tune_convergence_check_witness:
  "TunePlayerForLowLatency True engine0 scripted ([4, 2, 8, 4, 0, 2, 0, 9], []) =
     Some (Return True, ([9], [Call AAudioStream_getState 4, Call AAudioStream_getFramesPerBurst 2,
       Call AAudioStream_getBufferSizeInFrames 8, Call AAudioStream_getBufferCapacityInFrames 4,
       New_uint8 8, Call AAudioStream_getXRunCount 0,
       Call (AAudioStream_setBufferSizeInFrames 2) 2, Call AAudioStream_getBufferSizeInFrames 0,
       Delete_array]))"
proof -
  let ?tr = "[Call AAudioStream_getState 4, Call AAudioStream_getFramesPerBurst 2,
       Call AAudioStream_getBufferSizeInFrames 8, Call AAudioStream_getBufferCapacityInFrames 4,
       New_uint8 8, Call AAudioStream_getXRunCount 0]"
  let ?e = "\<lparr>te_framesPerBurst = 2, te_orgSize = 8, te_bufCap = 4,
       te_buf = ByteBuf [0, 0, 0, 0, 0, 0, 0, 0], te_prevXRun = 0, te_world = ([2, 0, 9], ?tr)\<rparr>"
  have g: "scripted [4, 2, 8, 4, 0, 2, 0, 9] AAudioStream_getState =
      (AAUDIO_STREAM_STATE_STARTED, [2, 8, 4, 0, 2, 0, 9])"
    by (simp add: scripted_def AAUDIO_STREAM_STATE_STARTED_def)
  have s: "tune_setup engine0 scripted ([2, 8, 4, 0, 2, 0, 9],
        [] @ [Call AAudioStream_getState AAUDIO_STREAM_STATE_STARTED]) = (Return ?e, ([2, 0, 9], ?tr))"
    by code_simp
  have c: "te_framesPerBurst ?e <=s te_bufCap ?e" by (simp add: word_sle_eq)
  have r: "scripted [2, 0, 9] (AAudioStream_setBufferSizeInFrames (te_framesPerBurst ?e)) = (2, [0, 9])"
    "\<not> (2 :: int32_t) <=s AAUDIO_OK"
    "scripted [0, 9] AAudioStream_getBufferSizeInFrames = (0, [9])"
    "scripted [9] (AAudioStream_write (te_buf ?e) (te_bufCap ?e) 1000000000) = (9, [])"
    by (simp_all add: scripted_def AAUDIO_OK_def word_sle_eq)
  show ?thesis
    using tune_convergence_check [OF g s c r, of True] by simp
qed

text \<open>
  C1 as stated fails on the first pass: a device that reports an unchanged size is probed.
  The device here has a buffer of 8 frames at entry, answers the request for 2 frames
  with 8 and reports 8 when read back: the size is unchanged, it is not 0, and the probe
  write of 4 frames (the capacity) is made before the tuner reports success.
\<close>

theorem tune_unchanged_size_is_probed:
  "TunePlayerForLowLatency True engine0 scripted ([4, 2, 8, 4, 0, 8, 8, 4, 0], []) =
     Some (Return True, ([], [Call AAudioStream_getState 4, Call AAudioStream_getFramesPerBurst 2,
       Call AAudioStream_getBufferSizeInFrames 8, Call AAudioStream_getBufferCapacityInFrames 4,
       New_uint8 8, Call AAudioStream_getXRunCount 0,
       Call (AAudioStream_setBufferSizeInFrames 2) 8, Call AAudioStream_getBufferSizeInFrames 8,
       Call (AAudioStream_write (ByteBuf [0, 0, 0, 0, 0, 0, 0, 0]) 4 1000000000) 4,
       Call AAudioStream_getXRunCount 0, Delete_array]))"
  by code_simp

section \<open>The generator's render\<close>

text \<open>What \<open>render\<close> leaves in the array: the samples of the generator at the start index
  and every stride after it, everything else as it was.\<close>

lemma render_length:
  "render smp buffer i stride n g = Some (b', g') \<Longrightarrow> length b' = length buffer"
  by (induction n arbitrary: buffer i g) (auto split: if_splits prod.splits)

lemma render_state:
  "render smp buffer i stride n g = Some (b', g') \<Longrightarrow> g' = gen_state smp g n"
  by (induction n arbitrary: buffer i g) (auto split: if_splits prod.splits)





section \<open>The render thread: one pass\<close>

text \<open>The byte count of \<^verbatim>\<open>memset\<close>: the bytes of the array when both factors are not
  negative, and a count no array has when \<^verbatim>\<open>framesPerBurst\<close> is negative.\<close>

lemma sint32_bounds:
  fixes x :: int32_t
  shows "- (2 ^ 31) \<le> sint x" and "sint x \<le> 2 ^ 31"
  using sint_ge [of x] sint_lt [of x] by simp_all

lemma memset_bytes_whole:
  assumes "0 \<le> sint fpb" and "0 \<le> sint spf"
  shows "memset_bytes fpb spf = 2 * (nat (sint fpb) * nat (sint spf))"
proof -
  have "sint fpb * sint spf \<le> 2 ^ 31 * 2 ^ 31"
    using assms sint32_bounds(2) [of fpb] sint32_bounds(2) [of spf] by (intro mult_mono) simp_all
  then have lt: "2 * sint fpb * sint spf < 2 ^ 64" by simp
  have nn: "0 \<le> 2 * sint fpb * sint spf" using assms by simp
  have "(2 * sint fpb * sint spf) mod 2 ^ 64 = 2 * sint fpb * sint spf"
    using nn lt by (rule mod_pos_pos_trivial)
  then show ?thesis using assms by (simp add: memset_bytes_def nat_mult_distrib)
qed



lemma memset_zero_length:
  "memset_zero buf bytes = Some b \<Longrightarrow> length b = length buf"
  by (auto simp: memset_zero_def split: if_splits)






section \<open>The render thread: the loop and its end\<close>

text \<open>No controller call clears \<^verbatim>\<open>requestStop_\<close> or the stream pointer, so a
  \<^verbatim>\<open>deleteEngine\<close> made while a stream is open is seen by the next guard.\<close>

lemma controller_keeps_stop: "requestStop e \<Longrightarrow> requestStop (controller c e)"
  by (cases c) (simp_all add: start_def stop_def deleteEngine_def)

lemma controls_keep_stop: "requestStop e \<Longrightarrow> requestStop (controls cs e)"
  unfolding controls_def by (induction cs arbitrary: e) (simp_all add: controller_keeps_stop)

lemma controller_playStream: "playStream (controller c e) = playStream e"
  by (cases c) (simp_all add: start_def stop_def deleteEngine_def)

lemma controls_playStream: "playStream (controls cs e) = playStream e"
  unfolding controls_def by (induction cs arbitrary: e) (simp_all add: controller_playStream)

lemma controls_append: "controls (cs @ cs') e = controls cs' (controls cs e)"
  by (simp add: controls_def)

lemma controls_delete:
  assumes "DeleteEngine \<in> set cs" and "playStream e \<noteq> None"
  shows "requestStop (controls cs e)"
proof -
  from assms(1) obtain xs ys where cs: "cs = xs @ DeleteEngine # ys" by (auto simp: in_set_conv_decomp)
  have "playStream (controls xs e) \<noteq> None" using assms(2) by (simp add: controls_playStream)
  then have "requestStop (controls [DeleteEngine] (controls xs e))"
    by (auto simp: controls_def deleteEngine_def)
  then have "requestStop (controls ys (controls [DeleteEngine] (controls xs e)))"
    by (rule controls_keep_stop)
  then show ?thesis unfolding cs by (simp add: controls_def)
qed

text \<open>What the controller can and cannot change: the format fields never, the play flag and
  the stop flag only while the stream pointer is set; and nothing it does to the play flag
  depends on the stop flag.\<close>

lemma controller_fields:
  "sampleRate (controller c e) = sampleRate e \<and> sampleChannels (controller c e) = sampleChannels e \<and>
   bitsPerSample (controller c e) = bitsPerSample e \<and> sampleFormat (controller c e) = sampleFormat e"
  by (cases c) (simp_all add: start_def stop_def deleteEngine_def)

lemma controls_fields:
  "sampleRate (controls cs e) = sampleRate e \<and> sampleChannels (controls cs e) = sampleChannels e \<and>
   bitsPerSample (controls cs e) = bitsPerSample e \<and> sampleFormat (controls cs e) = sampleFormat e"
  unfolding controls_def by (induction cs arbitrary: e) (simp_all add: controller_fields)

lemma controller_null: "playStream e = None \<Longrightarrow> controller c e = e"
  by (cases c) (simp_all add: start_def stop_def deleteEngine_def)

lemma controls_null: "playStream e = None \<Longrightarrow> controls cs e = e"
  unfolding controls_def by (induction cs) (simp_all add: controller_null)

lemma controls_no_delete:
  "\<not> requestStop e \<Longrightarrow> DeleteEngine \<notin> set cs \<Longrightarrow> \<not> requestStop (controls cs e)"
  unfolding controls_def
proof (induction cs arbitrary: e)
  case Nil
  then show ?case by simp
next
  case (Cons c cs)
  from Cons.prems have "\<not> requestStop (controller c e)"
    by (cases c) (simp_all add: start_def stop_def)
  with Cons.prems Cons.IH [of "controller c e"] show ?case by simp
qed

lemma controls_reset_stop:
  "requestStop (controls cs (e\<lparr>requestStop := False\<rparr>)) =
     (DeleteEngine \<in> set cs \<and> playStream e \<noteq> None)"
proof (cases "playStream e = None")
  case True
  then show ?thesis by (simp add: controls_null)
next
  case False
  show ?thesis
  proof (cases "DeleteEngine \<in> set cs")
    case True
    with False controls_delete [of cs "e\<lparr>requestStop := False\<rparr>"] show ?thesis by simp
  next
    case no: False
    with False controls_no_delete [of "e\<lparr>requestStop := False\<rparr>" cs] show ?thesis by simp
  qed
qed

lemma controller_stop_irrelevant:
  "\<exists>b'. controller c (e\<lparr>requestStop := b\<rparr>) = (controller c e)\<lparr>requestStop := b'\<rparr>"
proof (cases c)
  case Start
  have "controller Start (e\<lparr>requestStop := b\<rparr>) = (controller Start e)\<lparr>requestStop := b\<rparr>"
    by (simp add: start_def)
  with Start show ?thesis by blast
next
  case Stop
  have "controller Stop (e\<lparr>requestStop := b\<rparr>) = (controller Stop e)\<lparr>requestStop := b\<rparr>"
    by (simp add: stop_def)
  with Stop show ?thesis by blast
next
  case DeleteEngine
  have "controller DeleteEngine (e\<lparr>requestStop := b\<rparr>) =
      (controller DeleteEngine e)\<lparr>requestStop := (if playStream e = None then b else True)\<rparr>"
    by (simp add: deleteEngine_def)
  with DeleteEngine show ?thesis by blast
qed

lemma controls_stop_irrelevant:
  "\<exists>b'. controls cs (e\<lparr>requestStop := b\<rparr>) = (controls cs e)\<lparr>requestStop := b'\<rparr>"
proof (induction cs arbitrary: e b)
  case Nil
  have "controls [] (e\<lparr>requestStop := b\<rparr>) = (controls [] e)\<lparr>requestStop := b\<rparr>"
    by (simp add: controls_def)
  then show ?case by blast
next
  case (Cons c cs)
  obtain b1 where "controller c (e\<lparr>requestStop := b\<rparr>) = (controller c e)\<lparr>requestStop := b1\<rparr>"
    using controller_stop_irrelevant by blast
  moreover obtain b2 where "controls cs ((controller c e)\<lparr>requestStop := b1\<rparr>) =
      (controls cs (controller c e))\<lparr>requestStop := b2\<rparr>"
    using Cons.IH by blast
  ultimately have "controls (c # cs) (e\<lparr>requestStop := b\<rparr>) =
      (controls (c # cs) e)\<lparr>requestStop := b2\<rparr>"
    by (simp add: controls_def)
  then show ?case by blast
qed

lemma controls_playAudio_reset:
  "playAudio (controls cs (e\<lparr>requestStop := b\<rparr>)) = playAudio (controls cs e)"
proof -
  obtain b' where "controls cs (e\<lparr>requestStop := b\<rparr>) = (controls cs e)\<lparr>requestStop := b'\<rparr>"
    using controls_stop_irrelevant by blast
  then show ?thesis by simp
qed

lemma render_body_engine:
  "render_body ndebug S smp fpb spf st = (out, st') \<Longrightarrow> t_engine st' = t_engine st"
  by (auto simp: render_body_def split: prod.splits if_splits option.splits)

lemma render_body_length:
  "render_body ndebug S smp fpb spf st = (out, st') \<Longrightarrow> length (t_buf st') = length (t_buf st)"
  by (auto simp: render_body_def split: prod.splits if_splits option.splits
      dest!: render_length memset_zero_length)

lemma render_body_trace:
  "render_body ndebug S smp fpb spf st = (Return ph, st') \<Longrightarrow>
   \<exists>d' ev. t_world st' = (d', snd (t_world st) @ [ev]) \<and> is_write ev \<and>
     (\<not> ndebug \<longrightarrow> \<not> write_rejected ev)"
  by (auto simp: render_body_def api_def is_write_def write_rejected_def
      split: prod.splits if_splits option.splits)

lemma render_body_fail_trace:
  "render_body False S smp fpb spf st = (out, st') \<Longrightarrow> out \<noteq> Return RUNNING \<Longrightarrow>
   \<exists>ws. snd (t_world st') = snd (t_world st) @ ws \<and> length ws \<le> 1"
  by (auto simp: render_body_def api_def split: prod.splits if_splits option.splits)

lemma render_body_phase:
  "render_body ndebug S smp fpb spf st = (Return ph, st') \<Longrightarrow> ph = RUNNING"
  by (auto simp: render_body_def split: prod.splits if_splits option.splits)

lemma render_loop_stop_seen:
  "requestStop (controls c1 (t_engine st)) \<Longrightarrow>
   render_loop ndebug S smp fpb spf ((c1, c2) # post) st =
     (Return STOPPING, st\<lparr>t_engine := controls c1 (t_engine st)\<rparr>)"
  by (simp add: Let_def)

lemma render_loop_append:
  "render_loop ndebug S smp fpb spf pre st = (Return RUNNING, st1) \<Longrightarrow>
   render_loop ndebug S smp fpb spf (pre @ rest) st = render_loop ndebug S smp fpb spf rest st1"
proof (induction pre arbitrary: st)
  case Nil
  then show ?case by simp
next
  case (Cons a pre)
  obtain c1 c2 where a: "a = (c1, c2)" by (cases a) blast
  show ?case
  proof (cases "requestStop (controls c1 (t_engine st))")
    case True
    with Cons.prems a show ?thesis by (simp add: Let_def)
  next
    case False
    obtain out st2 where b: "render_body ndebug S smp fpb spf
        (st\<lparr>t_engine := controls c2 (controls c1 (t_engine st))\<rparr>) = (out, st2)"
      by (cases "render_body ndebug S smp fpb spf
        (st\<lparr>t_engine := controls c2 (controls c1 (t_engine st))\<rparr>)") blast
    show ?thesis
    proof (cases out)
      case (Return ph)
      with Cons.prems a False b have "render_loop ndebug S smp fpb spf pre st2 = (Return RUNNING, st1)"
        by (simp add: Let_def)
      then have "render_loop ndebug S smp fpb spf (pre @ rest) st2 =
          render_loop ndebug S smp fpb spf rest st1" by (rule Cons.IH)
      with a False b Return show ?thesis by (simp add: Let_def)
    qed (use Cons.prems a False b in \<open>simp_all add: Let_def\<close>)
  qed
qed

lemma render_loop_writes:
  "render_loop ndebug S smp fpb spf pre st = (Return RUNNING, st1) \<Longrightarrow>
   \<exists>ws. snd (t_world st1) = snd (t_world st) @ ws \<and> length ws = length pre \<and>
     list_all is_write ws"
proof (induction pre arbitrary: st)
  case Nil
  then show ?case by simp
next
  case (Cons a pre)
  obtain c1 c2 where a: "a = (c1, c2)" by (cases a) blast
  show ?case
  proof (cases "requestStop (controls c1 (t_engine st))")
    case True
    with Cons.prems a show ?thesis by (simp add: Let_def)
  next
    case False
    obtain out st2 where b: "render_body ndebug S smp fpb spf
        (st\<lparr>t_engine := controls c2 (controls c1 (t_engine st))\<rparr>) = (out, st2)"
      by (cases "render_body ndebug S smp fpb spf
        (st\<lparr>t_engine := controls c2 (controls c1 (t_engine st))\<rparr>)") blast
    show ?thesis
    proof (cases out)
      case (Return ph)
      with Cons.prems a False b have run: "render_loop ndebug S smp fpb spf pre st2 = (Return RUNNING, st1)"
        by (simp add: Let_def)
      from Cons.IH [OF run] obtain ws where ws: "snd (t_world st1) = snd (t_world st2) @ ws"
        "length ws = length pre" "list_all is_write ws" by blast
      from render_body_trace [OF b [unfolded Return]] obtain d' ev where
        ev: "t_world st2 = (d', snd (t_world st) @ [ev])" "is_write ev" by auto
      show ?thesis
        by (rule exI [of _ "ev # ws"]) (use ws ev in simp)
    qed (use Cons.prems a False b in \<open>simp_all add: Let_def\<close>)
  qed
qed

text \<open>
  C6. Once the guard of the render loop reads a set stop flag, after any number of passes,
  the loop is left at once (no further pass, whatever the controller does later), and the
  thread then releases the render array, asks the device to stop, closes it, in that order,
  and sets the stream pointer to null; the close is the last thing in the trace. What the
  loop did before is one write per pass. This holds whatever the controller calls while the
  thread tears down (\<open>closing\<close>).
\<close>

theorem render_stop_observed:
  assumes "render_loop ndebug S smp framesPerBurst samplesPerFrame pre st = (Return RUNNING, st1)"
    and "requestStop (controls before_guard (t_engine st1))"
    and "S (fst (t_world st1)) AAudioStream_requestStop = (r1, d1)"
    and "S d1 AAudioStream_close = (r2, d2)"
  shows "render_and_teardown ndebug S smp framesPerBurst samplesPerFrame
       (pre @ (before_guard, before_body) # post) closing st =
     (Return CLOSED,
      st1\<lparr>t_engine :=
            (controls (snd closing)
               ((controls (fst closing) (controls before_guard (t_engine st1)))
                  \<lparr>requestStop := False\<rparr>))\<lparr>playStream := None\<rparr>,
          t_world := (d2, snd (t_world st1) @
            [Delete_array, Call AAudioStream_requestStop r1, Call AAudioStream_close r2])\<rparr>) \<and>
     (\<exists>ws. snd (t_world st1) = snd (t_world st) @ ws \<and> length ws = length pre \<and>
        list_all is_write ws)"
proof
  have "render_loop ndebug S smp framesPerBurst samplesPerFrame
       (pre @ (before_guard, before_body) # post) st =
     (Return STOPPING, st1\<lparr>t_engine := controls before_guard (t_engine st1)\<rparr>)"
    using assms(1,2) by (simp add: render_loop_append render_loop_stop_seen)
  then show "render_and_teardown ndebug S smp framesPerBurst samplesPerFrame
       (pre @ (before_guard, before_body) # post) closing st =
     (Return CLOSED,
      st1\<lparr>t_engine :=
            (controls (snd closing)
               ((controls (fst closing) (controls before_guard (t_engine st1)))
                  \<lparr>requestStop := False\<rparr>))\<lparr>playStream := None\<rparr>,
          t_world := (d2, snd (t_world st1) @
            [Delete_array, Call AAudioStream_requestStop r1, Call AAudioStream_close r2])\<rparr>)"
    using assms(3,4) by (simp add: render_and_teardown_def teardown_def api_def emit_def Let_def)
  show "\<exists>ws. snd (t_world st1) = snd (t_world st) @ ws \<and> length ws = length pre \<and>
        list_all is_write ws"
    using assms(1) by (rule render_loop_writes)
qed

text \<open>
  C9, as amended. When the render loop has seen \<^verbatim>\<open>requestStop_\<close> and the thread has gone
  through its teardown, the engine structure is not cleared. The stream was asked to stop
  and closed (the last two calls of the trace, after the release of the array) and the
  stream pointer is null. \<^verbatim>\<open>requestStop_\<close> was reset to false, and is false at the end
  unless the controller called \<^verbatim>\<open>deleteEngine\<close> again between the reset (line 109) and the
  clearing of the pointer (line 114). The sample rate, the channels, the bits per sample and
  the format keep their values, and the play flag is what \<^verbatim>\<open>start\<close> and \<^verbatim>\<open>stop\<close> last
  made it.
\<close>

theorem render_teardown_engine:
  assumes "render_loop ndebug S smp framesPerBurst samplesPerFrame pre st = (Return RUNNING, st1)"
    and "requestStop (controls before_guard (t_engine st1))"
    and "render_and_teardown ndebug S smp framesPerBurst samplesPerFrame
       (pre @ (before_guard, before_body) # post) closing st = (out, st')"
  shows "out = Return CLOSED \<and>
     (\<exists>d' r1 r2. t_world st' = (d', snd (t_world st1) @
        [Delete_array, Call AAudioStream_requestStop r1, Call AAudioStream_close r2])) \<and>
     playStream (t_engine st') = None \<and>
     requestStop (t_engine st') =
       (DeleteEngine \<in> set (snd closing) \<and> playStream (t_engine st1) \<noteq> None) \<and>
     sampleRate (t_engine st') = sampleRate (t_engine st1) \<and>
     sampleChannels (t_engine st') = sampleChannels (t_engine st1) \<and>
     bitsPerSample (t_engine st') = bitsPerSample (t_engine st1) \<and>
     sampleFormat (t_engine st') = sampleFormat (t_engine st1) \<and>
     playAudio (t_engine st') =
       playAudio (controls (before_guard @ fst closing @ snd closing) (t_engine st1))"
proof -
  obtain r1 d1 where a: "S (fst (t_world st1)) AAudioStream_requestStop = (r1, d1)"
    by (cases "S (fst (t_world st1)) AAudioStream_requestStop") blast
  obtain r2 d2 where b: "S d1 AAudioStream_close = (r2, d2)"
    by (cases "S d1 AAudioStream_close") blast
  let ?e = "controls (fst closing) (controls before_guard (t_engine st1))"
  have "render_loop ndebug S smp framesPerBurst samplesPerFrame
       (pre @ (before_guard, before_body) # post) st =
     (Return STOPPING, st1\<lparr>t_engine := controls before_guard (t_engine st1)\<rparr>)"
    using assms(1,2) by (simp add: render_loop_append render_loop_stop_seen)
  with assms(3) a b have out: "out = Return CLOSED"
    and st': "st' = st1\<lparr>t_engine := (controls (snd closing) (?e\<lparr>requestStop := False\<rparr>))\<lparr>playStream := None\<rparr>,
          t_world := (d2, snd (t_world st1) @
            [Delete_array, Call AAudioStream_requestStop r1, Call AAudioStream_close r2])\<rparr>"
    by (simp_all add: render_and_teardown_def teardown_def api_def emit_def Let_def)
  have ps: "playStream ?e = playStream (t_engine st1)" by (simp add: controls_playStream)
  have rs: "requestStop (t_engine st') =
       (DeleteEngine \<in> set (snd closing) \<and> playStream (t_engine st1) \<noteq> None)"
    using controls_reset_stop [of "snd closing" ?e] ps by (simp add: st')
  have pa: "playAudio (t_engine st') =
       playAudio (controls (before_guard @ fst closing @ snd closing) (t_engine st1))"
    by (simp add: st' controls_playAudio_reset controls_append)
  have fs: "sampleRate (t_engine st') = sampleRate (t_engine st1)"
    "sampleChannels (t_engine st') = sampleChannels (t_engine st1)"
    "bitsPerSample (t_engine st') = bitsPerSample (t_engine st1)"
    "sampleFormat (t_engine st') = sampleFormat (t_engine st1)"
    by (simp_all add: st' controls_fields)
  have tr: "\<exists>d' r1 r2. t_world st' = (d', snd (t_world st1) @
        [Delete_array, Call AAudioStream_requestStop r1, Call AAudioStream_close r2])"
    by (simp add: st')
  have nul: "playStream (t_engine st') = None" by (simp add: st')
  from out tr nul rs fs pa show ?thesis by simp
qed

text \<open>The array keeps its length through the loop; the length allocated is
  \<^verbatim>\<open>framesPerBurst * samplesPerFrame\<close> where that product does not overflow.\<close>

lemma render_loop_length:
  "render_loop ndebug S smp fpb spf sched st = (out, st') \<Longrightarrow>
   length (t_buf st') = length (t_buf st)"
proof (induction sched arbitrary: st)
  case Nil
  then show ?case by simp
next
  case (Cons a sched)
  obtain c1 c2 where a: "a = (c1, c2)" by (cases a) blast
  show ?case
  proof (cases "requestStop (controls c1 (t_engine st))")
    case True
    with Cons.prems a show ?thesis by (auto simp: Let_def)
  next
    case False
    obtain out2 st2 where b: "render_body ndebug S smp fpb spf
        (st\<lparr>t_engine := controls c2 (controls c1 (t_engine st))\<rparr>) = (out2, st2)"
      by (cases "render_body ndebug S smp fpb spf
        (st\<lparr>t_engine := controls c2 (controls c1 (t_engine st))\<rparr>)") blast
    from render_body_length [OF b] have l2: "length (t_buf st2) = length (t_buf st)" by simp
    show ?thesis
    proof (cases out2)
      case (Return ph)
      with Cons.prems a False b have "render_loop ndebug S smp fpb spf sched st2 = (out, st')"
        by (simp add: Let_def)
      from Cons.IH [OF this] l2 show ?thesis by simp
    qed (use Cons.prems a False b l2 in \<open>auto simp: Let_def\<close>)
  qed
qed

lemma alloc_length:
  fixes fpb spf :: int32_t
  assumes "0 \<le> sint fpb" and "0 \<le> sint spf" and "sint fpb * sint spf < 2 ^ 31"
  shows "nat (sint (fpb * spf)) = nat (sint fpb) * nat (sint spf)"
proof -
  have "0 \<le> sint fpb * sint spf" using assms(1,2) by simp
  moreover have "- (2 ^ 31) \<le> (0 :: int)" by simp
  ultimately have "- (2 ^ 31) \<le> sint fpb * sint spf" by (rule order_trans [rotated])
  with assms(3) have "sint (fpb * spf) = sint fpb * sint spf"
    by (simp add: sint_word_ariths signed_take_bit_int_eq_self)
  then show ?thesis using assms(1,2) by (simp add: nat_mult_distrib)
qed

text \<open>With \<^verbatim>\<open>assert\<close> active, a write that returns a value that is not positive is
  the last thing the loop does.\<close>

lemma render_loop_assert_stops:
  "render_loop False S smp fpb spf sched st = (out, st') \<Longrightarrow>
   \<exists>ws. snd (t_world st') = snd (t_world st) @ ws \<and> \<not> list_ex write_rejected (butlast ws)"
proof (induction sched arbitrary: st)
  case Nil
  then show ?case by simp
next
  case (Cons a sched)
  obtain c1 c2 where a: "a = (c1, c2)" by (cases a) blast
  show ?case
  proof (cases "requestStop (controls c1 (t_engine st))")
    case True
    with Cons.prems a show ?thesis by (auto simp: Let_def)
  next
    case False
    let ?st = "st\<lparr>t_engine := controls c2 (controls c1 (t_engine st))\<rparr>"
    obtain out2 st2 where b: "render_body False S smp fpb spf ?st = (out2, st2)"
      by (cases "render_body False S smp fpb spf ?st") blast
    show ?thesis
    proof (cases "\<exists>ph. out2 = Return ph")
      case True
      then obtain ph where ph: "out2 = Return ph" by blast
      with Cons.prems a False b have "render_loop False S smp fpb spf sched st2 = (out, st')"
        by (simp add: Let_def)
      from Cons.IH [OF this] obtain ws where ws: "snd (t_world st') = snd (t_world st2) @ ws"
        "\<not> list_ex write_rejected (butlast ws)" by blast
      from render_body_trace [OF b [unfolded ph]] obtain d' ev where
        ev: "t_world st2 = (d', snd (t_world st) @ [ev])" "\<not> write_rejected ev" by auto
      show ?thesis
        by (rule exI [of _ "ev # ws"]) (use ws ev in simp)
    next
      case False
      then have ne: "out2 \<noteq> Return RUNNING" by blast
      from False Cons.prems a \<open>\<not> requestStop (controls c1 (t_engine st))\<close> b
      have "st' = st2" by (cases out2) (simp_all add: Let_def)
      with render_body_fail_trace [OF b ne] obtain ws where
        ws: "snd (t_world st') = snd (t_world st) @ ws" "length ws \<le> 1" by auto
      then have "butlast ws = []" by (cases ws) simp_all
      with ws(1) show ?thesis by auto
    qed
  qed
qed

text \<open>After the teardown the pointer is null, and no controller call changes the engine
  structure any more.\<close>

lemma teardown_then_controller:
  "controls cs (t_engine (teardown S closing st)) = t_engine (teardown S closing st)"
  by (rule controls_null) (simp add: teardown_def Let_def split: prod.splits)

text \<open>A stop flag that is set when a pass begins ends the thread in that pass.\<close>

lemma stop_requested_ends_loop:
  assumes "requestStop (t_engine st)"
  shows "fst (render_and_teardown ndebug S smp fpb spf ((c1, c2) # post) closing st) =
       Return CLOSED \<and>
     snd (t_world (snd (render_and_teardown ndebug S smp fpb spf ((c1, c2) # post) closing st))) =
       snd (t_world st) @ [Delete_array,
         Call AAudioStream_requestStop (fst (S (fst (t_world st)) AAudioStream_requestStop)),
         Call AAudioStream_close
           (fst (S (snd (S (fst (t_world st)) AAudioStream_requestStop)) AAudioStream_close))]"
  using controls_keep_stop [OF assms, of c1]
  by (simp add: render_and_teardown_def render_loop_stop_seen teardown_def api_def emit_def
      Let_def split: prod.splits)

text \<open>A run for C6: playback is started before the first pass, the engine is deleted before
  the guard of the second; one write is made, then the teardown, and the schedule that
  follows is not looked at.\<close>

theorem render_stop_observed_witness:
  "render_and_teardown True scripted (osc_sample counting) 2 2
       ([([Start], [])] @ ([DeleteEngine], [Stop]) # [([], [])]) ([], []) thread0 =
     (Return CLOSED,
      \<lparr>t_engine = \<lparr>sampleRate = 48000, sampleChannels = 2, bitsPerSample = 16, sampleFormat = 1,
           playStream = None, requestStop = False, playAudio = True\<rparr>,
         t_world = ([], [Call (AAudioStream_write (SampleBuf [200, 100, 201, 101]) 2 100000000) 2,
           Delete_array, Call AAudioStream_requestStop 5, Call AAudioStream_close 6]),
         sineOscLeft = 102, sineOscRight = 202, t_buf = [200, 100, 201, 101]\<rparr>)"
proof -
  let ?st1 = "\<lparr>t_engine = \<lparr>sampleRate = 48000, sampleChannels = 2, bitsPerSample = 16,
           sampleFormat = 1, playStream = Some 1, requestStop = False, playAudio = True\<rparr>,
         t_world = ([5 :: int32_t, 6],
           [Call (AAudioStream_write (SampleBuf [200, 100, 201, 101]) 2 100000000) 2]),
         sineOscLeft = 102 :: nat, sineOscRight = 202 :: nat, t_buf = [200 :: int16_t, 100, 201, 101]\<rparr>"
  have pre: "render_loop True scripted (osc_sample counting) 2 2 [([Start], [])] thread0 =
      (Return RUNNING, ?st1)"
    by code_simp
  have seen: "requestStop (controls [DeleteEngine] (t_engine ?st1))"
    by (simp add: controls_def deleteEngine_def)
  have r1: "scripted (fst (t_world ?st1)) AAudioStream_requestStop = (5, [6])"
    by (simp add: scripted_def)
  have r2: "scripted [6] AAudioStream_close = (6, [])"
    by (simp add: scripted_def)
  show ?thesis
    using render_stop_observed [OF pre seen r1 r2, of "[Stop]" "[([], [])]" "([], [])"]
    by (simp add: controls_def deleteEngine_def)
qed


text \<open>A run for C9: playback is started, the engine is deleted, and while the thread tears
  down the controller stops playback and then, after the reset of the flag, deletes the
  engine once more: the flag is set at the end, the play flag is false, the format fields
  are as they were.\<close>

theorem render_teardown_engine_witness:
  "(case render_and_teardown True scripted (osc_sample counting) 2 2
       ([([Start], [])] @ ([DeleteEngine], []) # []) ([Stop], [DeleteEngine]) thread0 of
     (out, st') \<Rightarrow>
       out = Return CLOSED \<and> playStream (t_engine st') = None \<and> requestStop (t_engine st') \<and>
       sampleRate (t_engine st') = 48000 \<and> sampleChannels (t_engine st') = 2 \<and>
       bitsPerSample (t_engine st') = 16 \<and> sampleFormat (t_engine st') = 1 \<and>
       \<not> playAudio (t_engine st'))"
proof -
  let ?st1 = "\<lparr>t_engine = \<lparr>sampleRate = 48000, sampleChannels = 2, bitsPerSample = 16,
           sampleFormat = 1, playStream = Some 1, requestStop = False, playAudio = True\<rparr>,
         t_world = ([5 :: int32_t, 6],
           [Call (AAudioStream_write (SampleBuf [200, 100, 201, 101]) 2 100000000) 2]),
         sineOscLeft = 102 :: nat, sineOscRight = 202 :: nat, t_buf = [200 :: int16_t, 100, 201, 101]\<rparr>"
  let ?r = "render_and_teardown True scripted (osc_sample counting) 2 2
       ([([Start], [])] @ ([DeleteEngine], []) # []) ([Stop], [DeleteEngine]) thread0"
  have pre: "render_loop True scripted (osc_sample counting) 2 2 [([Start], [])] thread0 =
      (Return RUNNING, ?st1)"
    by code_simp
  have seen: "requestStop (controls [DeleteEngine] (t_engine ?st1))"
    by (simp add: controls_def deleteEngine_def)
  show ?thesis
    using render_teardown_engine [OF pre seen surjective_pairing [of ?r]]
    by (simp add: controls_def deleteEngine_def stop_def case_prod_beta)
qed

text \<open>
  C9 as stated fails: the fields are not all cleared. A thread runs on the engine that
  \<^verbatim>\<open>createEngine\<close> made (48 kHz, stereo, 16 bits); the controller starts playback, then
  deletes the engine. After the teardown the sample rate, the channels, the bits per sample,
  the format and the play flag hold what they held: the structure is not the zeroed one.
\<close>

theorem teardown_keeps_fields:
  "map_option (\<lambda>r. (fst r, t_engine (snd r)))
     (PlayAudioThreadProc True id counting (\<lambda>i. 7) scripted [([Start], []), ([DeleteEngine], [])]
        ([], []) engine0 ([2, 4, 2, 2, 2, 0, 0], [])) =
   Some (Return CLOSED,
     \<lparr>sampleRate = 48000, sampleChannels = 2, bitsPerSample = 16, sampleFormat = 1,
      playStream = None, requestStop = False, playAudio = True\<rparr>) \<and>
   \<lparr>sampleRate = 48000, sampleChannels = 2, bitsPerSample = 16, sampleFormat = 1,
      playStream = None, requestStop = False, playAudio = True\<rparr> \<noteq> zeroed_engine"
  by code_simp

text \<open>
  C5. The loop is to be left when a write returns a value that is not positive. The only
  check of the source is \<^verbatim>\<open>assert(result > 0)\<close>; compiled with \<^verbatim>\<open>NDEBUG\<close> it is
  nothing, and the loop goes on. Here the device answers the three writes of three passes
  with 0, -1 and 2: all three are made, and the thread is still in the loop. The lemma after
  it is the same run with \<^verbatim>\<open>assert\<close> active: it ends at the first write.
\<close>

theorem render_write_failure_ignored:
  "map_option (\<lambda>r. (fst r, write_results (snd (t_world (snd r)))))
     (PlayAudioThreadProc True id counting (\<lambda>i. 7) scripted [([], []), ([], []), ([], [])]
        ([], []) engine0 ([2, 4, 2, 2, 0, -1, 2], [])) =
   Some (Return RUNNING, [0, -1, 2])"
  by code_simp

lemma render_write_failure_asserts:
  "map_option (\<lambda>r. (fst r, write_results (snd (t_world (snd r)))))
     (PlayAudioThreadProc False id counting (\<lambda>i. 7) scripted [([], []), ([], []), ([], [])]
        ([], []) engine0 ([2, 4, 2, 2, 0, -1, 2], [])) =
   Some (AssertFail, [0])"
  by code_simp

text \<open>Where the product of line 88 wrapped, the array is shorter than the byte count of
  \<^verbatim>\<open>memset\<close>, and a silent pass writes outside it.\<close>

lemma render_silent_overrun:
  assumes "\<not> playAudio (t_engine st)"
    and "0 \<le> sint fpb" and "0 \<le> sint spf"
    and "length (t_buf st) < nat (sint fpb) * nat (sint spf)"
  shows "render_body ndebug S smp fpb spf st = (OutOfBounds, st)"
proof -
  have "memset_zero (t_buf st) (memset_bytes fpb spf) = None"
    using assms(2-4) by (simp add: memset_bytes_whole memset_zero_def)
  with assms(1) show ?thesis by (simp add: render_body_def)
qed

end
